theory Spec2Isabelle
  imports Main
begin

section \<open>Errors and results\<close>

text \<open>
  Every exception of the Python source, and every exception the tensor library raises
  on the paths modelled here, is a value of \<open>error\<close>; a computation that may raise
  returns \<open>error + 'a\<close> with \<open>Inl\<close> for the exception.
\<close>

datatype error = ValueError string | IndexError string | RuntimeError string

definition and_then :: "error + 'a \<Rightarrow> ('a \<Rightarrow> error + 'b) \<Rightarrow> error + 'b" where
  "and_then r f = (case r of Inl e \<Rightarrow> Inl e | Inr v \<Rightarrow> f v)"

fun sequence :: "(error + 'a) list \<Rightarrow> error + 'a list" where
  "sequence [] = Inr []"
| "sequence (x # xs) =
     (case x of Inl e \<Rightarrow> Inl e
      | Inr v \<Rightarrow> (case sequence xs of Inl e \<Rightarrow> Inl e | Inr vs \<Rightarrow> Inr (v # vs)))"

section \<open>Tensors\<close>

text \<open>
  A tensor of any rank is a nested list: \<open>Scalar\<close> is a tensor of rank 0 and
  \<open>Tensor xs\<close> lists the sub-tensors along axis 0. The element type stands for the
  floating-point numbers of the program.
\<close>

datatype 'a tensor = Scalar 'a | Tensor "'a tensor list"

text \<open>The size of a tensor is kept as the tensor with its elements erased: two tensors
  have the same size when these are equal.\<close>

definition skel :: "'a tensor \<Rightarrow> unit tensor" where
  "skel t = map_tensor (\<lambda>_. ()) t"

text \<open>
  \<^verbatim>\<open>t.index_select(dim, index)\<close>: entry \<open>j\<close> of the result along axis \<open>dim\<close> is
  entry \<open>index[j]\<close> of \<open>t\<close> along that axis. The library raises when the tensor has no
  such axis and when an index is out of range.
\<close>

primrec index_select :: "nat \<Rightarrow> nat list \<Rightarrow> 'a tensor \<Rightarrow> error + 'a tensor" where
  "index_select 0 index t =
     (case t of
        Scalar _ \<Rightarrow> Inl (IndexError ''dimension out of range'')
      | Tensor xs \<Rightarrow>
          if list_all (\<lambda>i. i < length xs) index
          then Inr (Tensor (map (\<lambda>i. xs ! i) index))
          else Inl (IndexError ''index out of range''))"
| "index_select (Suc d) index t =
     (case t of
        Scalar _ \<Rightarrow> Inl (IndexError ''dimension out of range'')
      | Tensor xs \<Rightarrow>
          and_then (sequence (map (index_select d index) xs)) (\<lambda>ys. Inr (Tensor ys)))"

text \<open>
  \<^verbatim>\<open>t.transpose(0, 1)\<close> swaps the first two axes. The library raises when the tensor
  has fewer than two axes.
\<close>

fun transpose01 :: "'a tensor \<Rightarrow> error + 'a tensor" where
  "transpose01 (Scalar a) = Inl (IndexError ''dimension out of range'')"
| "transpose01 (Tensor rows) =
     (if list_all (\<lambda>r. case r of Scalar _ \<Rightarrow> False | Tensor _ \<Rightarrow> True) rows
      then Inr (Tensor (map Tensor
                 (transpose (map (\<lambda>r. case r of Tensor cs \<Rightarrow> cs | Scalar _ \<Rightarrow> []) rows))))
      else Inl (IndexError ''dimension out of range''))"

text \<open>A tensor of zeros of the size of a given one.\<close>

fun zeros_like :: "('a::zero) tensor \<Rightarrow> 'a tensor" where
  "zeros_like (Scalar a) = Scalar 0"
| "zeros_like (Tensor xs) = Tensor (map zeros_like xs)"

text \<open>
  The library's binary operations on two tensors work element by element after
  broadcasting: the axes of the operands are aligned from the last one, an operand with
  fewer axes is repeated along the leading axes of the other, an axis of size 1 is
  repeated along the corresponding axis of the other operand, and two aligned axes of
  different sizes neither of which is 1 cannot be broadcast: the library raises (its
  versions 0.2 and 0.3 first try, with a deprecation warning, to combine two such
  operands position by position when they have the same number of elements; that
  fallback is not part of the model). \<open>ndim\<close> is the number of axes (a tensor has no
  empty axis), \<open>broadcast f\<close> is the operation that applies \<open>f\<close> to the elements, and
  \<^verbatim>\<open>a + b\<close> is \<open>tensor_add a b\<close>.
\<close>

fun ndim :: "'a tensor \<Rightarrow> nat" where
  "ndim (Scalar a) = 0"
| "ndim (Tensor []) = 1"
| "ndim (Tensor (x # xs)) = Suc (ndim x)"

function (sequential) broadcast ::
  "('a \<Rightarrow> 'b \<Rightarrow> 'c) \<Rightarrow> 'a tensor \<Rightarrow> 'b tensor \<Rightarrow> error + 'c tensor" where
  "broadcast f (Scalar a) (Scalar b) = Inr (Scalar (f a b))"
| "broadcast f (Scalar a) (Tensor ys) =
     and_then (sequence (map (\<lambda>y. broadcast f (Scalar a) y) ys)) (\<lambda>zs. Inr (Tensor zs))"
| "broadcast f (Tensor xs) (Scalar b) =
     and_then (sequence (map (\<lambda>x. broadcast f x (Scalar b)) xs)) (\<lambda>zs. Inr (Tensor zs))"
| "broadcast f (Tensor xs) (Tensor ys) =
     (if ndim (Tensor xs) < ndim (Tensor ys)
      then and_then (sequence (map (\<lambda>y. broadcast f (Tensor xs) y) ys)) (\<lambda>zs. Inr (Tensor zs))
      else if ndim (Tensor ys) < ndim (Tensor xs)
      then and_then (sequence (map (\<lambda>x. broadcast f x (Tensor ys)) xs)) (\<lambda>zs. Inr (Tensor zs))
      else if length xs = length ys
      then and_then (sequence (map (\<lambda>(x, y). broadcast f x y) (zip xs ys))) (\<lambda>zs. Inr (Tensor zs))
      else if length xs = 1
      then and_then (sequence (map (\<lambda>y. broadcast f (hd xs) y) ys)) (\<lambda>zs. Inr (Tensor zs))
      else if length ys = 1
      then and_then (sequence (map (\<lambda>x. broadcast f x (hd ys)) xs)) (\<lambda>zs. Inr (Tensor zs))
      else Inl (RuntimeError ''The size of tensor a must match the size of tensor b''))"
  by pat_completeness auto
termination
proof -
  have m: "size x \<le> size_list size xs" if "x \<in> set xs" for x :: "'d tensor" and xs
    using that by (simp add: size_list_estimation')
  have h: "size (hd xs) \<le> size_list size xs" if "length xs = Suc 0" for xs :: "'d tensor list"
    using that by (cases xs) auto
  show ?thesis
    by (relation "measure (\<lambda>(f, x, y). size x + size y)")
       (auto elim!: in_set_zipE dest!: m dest: h simp: less_Suc_eq_le)
qed

definition tensor_add :: "('a::plus) tensor \<Rightarrow> 'a tensor \<Rightarrow> error + 'a tensor" where
  "tensor_add a b = broadcast (\<lambda>u v. u + v) a b"

text \<open>
  \<^verbatim>\<open>torch.cat([a, b], dim)\<close> joins two tensors along axis \<open>dim\<close>; the library raises
  when the tensors lack that axis and when their sizes differ on another axis.
\<close>

primrec cat_dim :: "nat \<Rightarrow> 'a tensor \<Rightarrow> 'a tensor \<Rightarrow> error + 'a tensor" where
  "cat_dim 0 a b =
     (case a of
        Scalar _ \<Rightarrow> Inl (IndexError ''dimension out of range'')
      | Tensor xs \<Rightarrow>
          (case b of
             Scalar _ \<Rightarrow> Inl (IndexError ''dimension out of range'')
           | Tensor ys \<Rightarrow>
               if list_all (\<lambda>y. list_all (\<lambda>x. skel x = skel y) xs) ys
               then Inr (Tensor (xs @ ys))
               else Inl (RuntimeError ''Sizes of tensors must match except in dimension'')))"
| "cat_dim (Suc d) a b =
     (case a of
        Scalar _ \<Rightarrow> Inl (IndexError ''dimension out of range'')
      | Tensor xs \<Rightarrow>
          (case b of
             Scalar _ \<Rightarrow> Inl (IndexError ''dimension out of range'')
           | Tensor ys \<Rightarrow>
               if length xs = length ys
               then and_then (sequence (map (\<lambda>(x, y). cat_dim d x y) (zip xs ys)))
                      (\<lambda>zs. Inr (Tensor zs))
               else Inl (RuntimeError ''Sizes of tensors must match except in dimension'')))"

text \<open>A tensor of rank 3 given as nested lists.\<close>

definition tensor_of_cube :: "'a list list list \<Rightarrow> 'a tensor" where
  "tensor_of_cube t = Tensor (map (\<lambda>ws. Tensor (map (\<lambda>cs. Tensor (map Scalar cs)) ws)) t)"

section \<open>Packed sequences\<close>

text \<open>
  The library's \<^verbatim>\<open>PackedSequence\<close> holds a batch of sequences sorted by
  descending length: \<open>data\<close> lists, time step after time step, the entries of the
  sequences that are still running at that step, and \<open>batch_sizes\<close> says how many
  these are at each step. Each entry is the sub-tensor of one position of one sequence
  (its feature vector).
\<close>

record 'a PackedSequence =
  data :: "'a tensor list"
  batch_sizes :: "nat list"

text \<open>\<open>count_longer ns k\<close> counts the entries of \<open>ns\<close> above \<open>k\<close>: with the batch
  sizes it is the length of sequence \<open>k\<close>, and with the lengths it is the batch size
  at step \<open>k\<close>.\<close>

definition count_longer :: "nat list \<Rightarrow> nat \<Rightarrow> nat" where
  "count_longer ns k = length (filter (\<lambda>n. k < n) ns)"

text \<open>The rows of the padded tensor (time step \<open>\<times>\<close> batch): at each step the running
  entries, then the padding value up to the batch size.\<close>

fun pad_rows :: "'a tensor \<Rightarrow> nat \<Rightarrow> 'a tensor list \<Rightarrow> nat list \<Rightarrow> 'a tensor list list" where
  "pad_rows z B ds [] = []"
| "pad_rows z B ds (n # ns) = (take n ds @ replicate (B - n) z) # pad_rows z B (drop n ds) ns"

text \<open>
  \<^verbatim>\<open>pad_packed_sequence(sequence)\<close> returns the padded tensor, time-major, padded
  with zeros, and the lengths of the sequences, as a Python list in the version of the
  library the source is written for (the source compares two such results with
  \<^verbatim>\<open>!=\<close>). The two functions are modelled on the packed sequences the library
  itself produces, whose batch sizes are positive and never grow.
\<close>

definition pad_packed_sequence :: "('a::zero) PackedSequence \<Rightarrow> error + ('a tensor \<times> nat list)" where
  "pad_packed_sequence sequence_pack =
     (case batch_sizes sequence_pack of
        [] \<Rightarrow> Inl (IndexError ''list index out of range'')
      | max_batch_size # _ \<Rightarrow>
          (case data sequence_pack of
             [] \<Rightarrow> Inl (RuntimeError ''empty data'')
           | d # _ \<Rightarrow>
               Inr (Tensor (map Tensor (pad_rows (zeros_like d) max_batch_size
                                          (data sequence_pack) (batch_sizes sequence_pack))),
                    map (count_longer (batch_sizes sequence_pack)) [0..<max_batch_size])))"

text \<open>
  \<^verbatim>\<open>pack_padded_sequence(input, lengths, batch_first)\<close> with the library's checks:
  the last length is positive, there is one length per example, and the lengths are
  sorted in decreasing order. Step \<open>t\<close> keeps the first \<open>count_longer lengths t\<close>
  entries of row \<open>t\<close>.
\<close>

definition pack_rows :: "nat list \<Rightarrow> 'a tensor list \<Rightarrow> 'a tensor list" where
  "pack_rows sizes rows =
     concat (map (\<lambda>(n, row). case row of Tensor cs \<Rightarrow> take n cs | Scalar _ \<Rightarrow> []) (zip sizes rows))"

definition pack_padded_sequence ::
  "'a tensor \<Rightarrow> nat list \<Rightarrow> bool \<Rightarrow> error + 'a PackedSequence" where
  "pack_padded_sequence input lens batch_first =
     (if lens = [] then Inl (IndexError ''list index out of range'')
      else if last lens \<le> 0
      then Inl (ValueError ''length of all samples has to be greater than 0, but found an element in 'lengths' that is <=0'')
      else and_then (if batch_first then transpose01 input else Inr input) (\<lambda>input.
        case input of
          Scalar _ \<Rightarrow> Inl (IndexError ''dimension out of range'')
        | Tensor rows \<Rightarrow>
            (case rows of
               [] \<Rightarrow> Inl (IndexError ''dimension out of range'')
             | Scalar _ # _ \<Rightarrow> Inl (IndexError ''dimension out of range'')
             | Tensor r # _ \<Rightarrow>
                 if length lens \<noteq> length r then Inl (ValueError ''lengths array has incorrect size'')
                 else if \<not> sorted (rev lens)
                 then Inl (ValueError ''lengths array has to be sorted in decreasing order'')
                 else
                   (let sizes = map (count_longer lens) [0..<hd lens]
                    in Inr \<lparr> data = pack_rows sizes rows, batch_sizes = sizes \<rparr>))))"

section \<open>Documents\<close>

text \<open>
  Modelled from the spec: the class \<^verbatim>\<open>Documents\<close> of \<^verbatim>\<open>utils.dataset\<close>, which
  \<^verbatim>\<open>r_net.py\<close> imports and which is not among the sources. The spec gives it a
  token-index tensor (batch \<open>\<times>\<close> max_len), the per-sequence lengths, a validity mask and
  a stored permutation between the original batch order and the order sorted by
  descending length. The source uses \<^verbatim>\<open>tensor\<close> and \<^verbatim>\<open>lengths\<close> in sorted
  order (they are packed directly), \<^verbatim>\<open>mask_original\<close> in original order (it
  is passed through \<^verbatim>\<open>to_sorted_order\<close>), and the two methods
  \<^verbatim>\<open>to_sorted_order\<close> and \<^verbatim>\<open>restore_original_order\<close>.
\<close>

record 'a Documents =
  tensor :: "nat tensor"
  lengths :: "nat list"
  mask_original :: "'a tensor"
  sorted_idx :: "nat list"
  original_idx :: "nat list"

text \<open>\<open>sort_idx p\<close> lists the positions of \<open>p\<close> in the order of their values.\<close>

definition sort_idx :: "nat list \<Rightarrow> nat list" where
  "sort_idx seq = sort_key (\<lambda>i. seq ! i) [0..<length seq]"

definition pad_to :: "nat \<Rightarrow> 'b \<Rightarrow> 'b list \<Rightarrow> 'b list" where
  "pad_to n v xs = xs @ replicate (n - length xs) v"

text \<open>
  Modelled from the spec: the constructor. A batch is a list of token sequences of
  varying length, in the caller's order. The permutation \<open>sorted_idx\<close> sorts the
  examples by descending length (examples of equal length keep their order), and
  \<open>original_idx\<close> is computed from it by sorting once more.
\<close>

definition Documents_init :: "nat \<Rightarrow> nat list list \<Rightarrow> ('a::{zero,one}) Documents" where
  "Documents_init padding seqs =
     (let original_lengths = map length seqs;
          max_len = fold max original_lengths 0;
          sorted = sort_key (\<lambda>i. - int (original_lengths ! i)) [0..<length seqs]
      in \<lparr> tensor = Tensor (map (\<lambda>i. Tensor (map Scalar (pad_to max_len padding (seqs ! i)))) sorted),
           lengths = map (\<lambda>i. original_lengths ! i) sorted,
           mask_original =
             Tensor (map (\<lambda>s. Tensor (map Scalar (pad_to max_len 0 (replicate (length s) 1)))) seqs),
           sorted_idx = sorted,
           original_idx = sort_idx sorted \<rparr>)"

text \<open>Modelled from the spec: the two order conversions, as selections along the batch
  axis by the stored permutation and by its inverse.\<close>

definition to_sorted_order :: "'a Documents \<Rightarrow> 'b tensor \<Rightarrow> nat \<Rightarrow> error + 'b tensor" where
  "to_sorted_order doc original_tensor batch_dim =
     index_select batch_dim (sorted_idx doc) original_tensor"

definition restore_original_order :: "'a Documents \<Rightarrow> 'b tensor \<Rightarrow> nat \<Rightarrow> error + 'b tensor" where
  "restore_original_order doc sorted_tensor batch_dim =
     index_select batch_dim (original_idx doc) sorted_tensor"

section \<open>The model: \<^verbatim>\<open>models/r_net.py\<close>\<close>

subsection \<open>\<^verbatim>\<open>pack_residual\<close>\<close>

definition pack_residual ::
  "('a::{zero,plus}) PackedSequence \<Rightarrow> 'a PackedSequence \<Rightarrow> error + 'a PackedSequence" where
  "pack_residual x_pack y_pack =
     and_then (pad_packed_sequence x_pack) (\<lambda>(x_tensor, x_lengths).
     and_then (pad_packed_sequence y_pack) (\<lambda>(y_tensor, y_lengths).
       if x_lengths \<noteq> y_lengths then Inl (ValueError ''different lengths'')
       else and_then (tensor_add x_tensor y_tensor) (\<lambda>s. pack_padded_sequence s x_lengths False)))"

subsection \<open>The modules of \<^verbatim>\<open>modules.attention\<close> and \<^verbatim>\<open>modules.recurrent\<close>\<close>

text \<open>
  \<^verbatim>\<open>AttentionPooling\<close>, \<^verbatim>\<open>RNN\<close>, \<^verbatim>\<open>AttentionEncoder\<close> and \<^verbatim>\<open>StackedCell\<close>
  are imported by \<^verbatim>\<open>r_net.py\<close> and are not among the sources; their forward
  passes are parameters of the model. An attention pooling takes the key sequence, the
  queries, the key mask and the flag \<^verbatim>\<open>broadcast_key\<close> and yields the pooled
  result and the scores of the key positions (which the caller receives with
  \<^verbatim>\<open>return_key_scores=True\<close>). A recurrent encoder takes a packed sequence and
  yields the packed outputs and the last hidden state. An attention encoder takes the
  triple of the packed passage, the padded keys and the key mask and yields the packed
  outputs and the last hidden state. A stacked cell takes an input and a hidden state
  and yields the output and the new hidden state.
\<close>

type_synonym 'a AttentionPooling =
  "'a tensor \<Rightarrow> 'a tensor \<Rightarrow> 'a tensor \<Rightarrow> bool \<Rightarrow> 'a tensor \<times> 'a tensor"

type_synonym 'a RNN = "'a PackedSequence \<Rightarrow> 'a PackedSequence \<times> 'a tensor"

type_synonym 'a AttentionEncoder =
  "'a PackedSequence \<times> 'a tensor \<times> 'a tensor \<Rightarrow> 'a PackedSequence \<times> 'a tensor"

type_synonym 'a StackedCell = "'a tensor \<Rightarrow> 'a tensor \<Rightarrow> 'a tensor \<times> 'a tensor"

subsection \<open>\<^verbatim>\<open>PairEncoder\<close> and \<^verbatim>\<open>SelfMatchingEncoder\<close>\<close>

text \<open>Each of the two classes holds one attention encoder and hands it its arguments
  as the triple (passage, questions, question mask).\<close>

definition PairEncoder_forward ::
  "'a AttentionEncoder \<Rightarrow> 'a tensor \<Rightarrow> 'a tensor \<Rightarrow> 'a PackedSequence
   \<Rightarrow> 'a PackedSequence \<times> 'a tensor" where
  "PairEncoder_forward pair_encoder questions question_mark passage =
     (let inputs = (passage, questions, question_mark);
          result = pair_encoder inputs
      in result)"

definition SelfMatchingEncoder_forward ::
  "'a AttentionEncoder \<Rightarrow> 'a tensor \<Rightarrow> 'a tensor \<Rightarrow> 'a PackedSequence
   \<Rightarrow> 'a PackedSequence \<times> 'a tensor" where
  "SelfMatchingEncoder_forward pair_encoder questions question_mark passage =
     (let inputs = (passage, questions, question_mark)
      in pair_encoder inputs)"

subsection \<open>\<^verbatim>\<open>SentenceEncoding\<close>\<close>

record 'a SentenceEncoding =
  question_encoder :: "'a RNN"
  passage_encoder :: "'a RNN"

definition SentenceEncoding_forward ::
  "'a SentenceEncoding \<Rightarrow> 'a PackedSequence \<Rightarrow> 'a PackedSequence
   \<Rightarrow> 'a PackedSequence \<times> 'a PackedSequence" where
  "SentenceEncoding_forward self question_pack context_pack =
     (let (question_outputs, _) = question_encoder self question_pack;
          (passage_outputs, _) = passage_encoder self context_pack
      in (question_outputs, passage_outputs))"

subsection \<open>\<^verbatim>\<open>PointerNetwork\<close>\<close>

record 'a PointerNetwork =
  num_layers :: nat
  question_pooling :: "'a AttentionPooling"
  passage_pooling :: "'a AttentionPooling"
  V_q :: "'a tensor"
  cell :: "'a StackedCell"

text \<open>
  \<^verbatim>\<open>hidden.expand([n, hidden.size(1), hidden.size(2)])\<close> repeats a tensor whose first
  axis has size 1 \<open>n\<close> times along that axis; the library raises when the tensor has
  fewer than three axes and when the first axis has another size than 1 or \<open>n\<close>.
\<close>

definition expand_first :: "nat \<Rightarrow> 'a tensor \<Rightarrow> error + 'a tensor" where
  "expand_first n t =
     (case t of
        Tensor (Tensor (Tensor c # cs) # hs) \<Rightarrow>
          if hs = [] then Inr (Tensor (replicate n (Tensor (Tensor c # cs))))
          else if Suc (length hs) = n then Inr t
          else Inl (RuntimeError ''The expanded size of the tensor must match the existing size'')
      | _ \<Rightarrow> Inl (IndexError ''dimension out of range''))"

text \<open>\<^verbatim>\<open>t.squeeze(0)\<close> drops the first axis when its size is 1, and
  \<^verbatim>\<open>t.unsqueeze(0)\<close> adds a first axis of size 1.\<close>

definition squeeze_first :: "'a tensor \<Rightarrow> 'a tensor" where
  "squeeze_first t = (case t of Tensor [x] \<Rightarrow> x | _ \<Rightarrow> t)"

definition unsqueeze_first :: "'a tensor \<Rightarrow> 'a tensor" where
  "unsqueeze_first t = Tensor [t]"

definition PointerNetwork_forward ::
  "'a PointerNetwork \<Rightarrow> 'a tensor \<Rightarrow> 'a tensor \<Rightarrow> 'a tensor \<Rightarrow> 'a tensor
   \<Rightarrow> error + ('a tensor \<times> 'a tensor)" where
  "PointerNetwork_forward self question_pad question_mask passage_pad passage_mask =
     (let hidden = fst (question_pooling self question_pad (V_q self) question_mask True);
          (inputs, ans_begin) = passage_pooling self passage_pad hidden passage_mask False
      in and_then (expand_first (num_layers self) hidden) (\<lambda>hidden.
           let (output, hidden) = cell self (squeeze_first inputs) hidden;
               (_, ans_end) = passage_pooling self passage_pad (unsqueeze_first output) passage_mask False
           in Inr (ans_begin, ans_end)))"

subsection \<open>\<^verbatim>\<open>RNet\<close>\<close>

record 'a RNet =
  sentence_encoding :: "'a SentenceEncoding"
  pair_encoder :: "'a AttentionEncoder"
  self_matching_encoder :: "'a AttentionEncoder"
  pointer_output :: "'a PointerNetwork"
  residual :: bool

definition RNet_sentence_encoding ::
  "('a::zero) RNet \<Rightarrow> 'a tensor \<Rightarrow> 'a tensor \<Rightarrow> 'a Documents \<Rightarrow> 'a Documents
   \<Rightarrow> error + ('a PackedSequence \<times> 'a PackedSequence)" where
  "RNet_sentence_encoding self embedded_passage embedded_question passage question =
     and_then (pack_padded_sequence embedded_question (lengths question) True) (\<lambda>question_pack.
     and_then (pack_padded_sequence embedded_passage (lengths passage) True) (\<lambda>passage_pack.
       let (question_encoded_pack, passage_encoded_pack) =
             SentenceEncoding_forward (sentence_encoding self) question_pack passage_pack
       in Inr (passage_encoded_pack, question_encoded_pack)))"

text \<open>\<^verbatim>\<open>doc.to_sorted_order(doc'.mask_original, batch_dim=0).transpose(0, 1)\<close>, which the
  forward pass computes for the question mask and (twice) for the passage mask.\<close>

definition mask_in_sorted_order :: "'a Documents \<Rightarrow> 'a tensor \<Rightarrow> error + 'a tensor" where
  "mask_in_sorted_order passage mask_tensor =
     and_then (to_sorted_order passage mask_tensor 0) transpose01"

definition RNet_self_match_encode ::
  "('a::zero) RNet \<Rightarrow> 'a PackedSequence \<Rightarrow> 'a Documents \<Rightarrow> error + 'a PackedSequence" where
  "RNet_self_match_encode self paired_passage_pack passage =
     and_then (mask_in_sorted_order passage (mask_original passage)) (\<lambda>passage_mask_sorted_order.
     and_then (pad_packed_sequence paired_passage_pack) (\<lambda>(paired_passage_pad, _).
       let (self_matched_passage, _) =
             SelfMatchingEncoder_forward (self_matching_encoder self) paired_passage_pad
               passage_mask_sorted_order paired_passage_pack
       in Inr self_matched_passage))"

definition RNet_pair_encode ::
  "'a RNet \<Rightarrow> 'a PackedSequence \<Rightarrow> 'a tensor \<Rightarrow> 'a tensor \<Rightarrow> 'a PackedSequence" where
  "RNet_pair_encode self passage_encoded_pack question_encoded_padded_in_passage_sorted_order
       question_mask_in_passage_order =
     (let (paired_passage_pack, _) =
            PairEncoder_forward (pair_encoder self) question_encoded_padded_in_passage_sorted_order
              question_mask_in_passage_order passage_encoded_pack
      in paired_passage_pack)"

text \<open>
  The forward pass, in four parts that follow the source lines: the question states in
  the passage's sorted order (lines 380 to 385), the passage representation after pair
  encoding and self matching with their residuals (lines 389 to 398), the logits of the
  pointer network in sorted order (lines 377 to 403), and the whole pass (to line 406).
\<close>

definition question_pad_in_passage_sorted_order ::
  "('a::zero) Documents \<Rightarrow> 'a Documents \<Rightarrow> 'a PackedSequence \<Rightarrow> error + 'a tensor" where
  "question_pad_in_passage_sorted_order question passage question_pack =
     and_then (pad_packed_sequence question_pack) (\<lambda>(question_encoded_padded_sorted, _).
     and_then (restore_original_order question question_encoded_padded_sorted 1)
       (\<lambda>question_encoded_padded_original.
          to_sorted_order passage question_encoded_padded_original 1))"

definition RNet_passage_representation ::
  "('a::{zero,plus}) RNet \<Rightarrow> 'a Documents \<Rightarrow> 'a PackedSequence \<Rightarrow> 'a tensor \<Rightarrow> 'a tensor
   \<Rightarrow> error + 'a PackedSequence" where
  "RNet_passage_representation self passage passage_pack question_pad question_mask =
     (let paired_passage_pack = RNet_pair_encode self passage_pack question_pad question_mask
      in and_then (if residual self then pack_residual paired_passage_pack passage_pack
                   else Inr paired_passage_pack) (\<lambda>paired_passage_pack.
         and_then (RNet_self_match_encode self paired_passage_pack passage)
           (\<lambda>self_matched_passage_pack.
              if residual self then pack_residual paired_passage_pack self_matched_passage_pack
              else Inr self_matched_passage_pack)))"

definition RNet_sorted_logits ::
  "('a::{zero,plus}) RNet \<Rightarrow> 'a Documents \<Rightarrow> 'a Documents \<Rightarrow> 'a tensor \<Rightarrow> 'a tensor
   \<Rightarrow> error + ('a tensor \<times> 'a tensor)" where
  "RNet_sorted_logits self question passage embedded_question embedded_passage =
     and_then (RNet_sentence_encoding self embedded_passage embedded_question passage question)
       (\<lambda>(passage_pack, question_pack).
     and_then (question_pad_in_passage_sorted_order question passage question_pack)
       (\<lambda>question_pad_in_passage_sorted_order.
     and_then (mask_in_sorted_order passage (mask_original question))
       (\<lambda>question_mask_in_passage_sorted_order.
     and_then (RNet_passage_representation self passage passage_pack
                 question_pad_in_passage_sorted_order question_mask_in_passage_sorted_order)
       (\<lambda>self_matched_passage_pack.
     and_then (pad_packed_sequence self_matched_passage_pack) (\<lambda>(passage_pad, _).
     and_then (mask_in_sorted_order passage (mask_original passage)) (\<lambda>passage_mask.
       PointerNetwork_forward (pointer_output self) question_pad_in_passage_sorted_order
         question_mask_in_passage_sorted_order passage_pad passage_mask))))))"

definition RNet_forward ::
  "('a::{zero,plus}) RNet \<Rightarrow> 'a Documents \<Rightarrow> 'a Documents \<Rightarrow> 'a tensor \<Rightarrow> 'a tensor
   \<Rightarrow> error + ('a tensor \<times> 'a tensor)" where
  "RNet_forward self question passage embedded_question embedded_passage =
     and_then (RNet_sorted_logits self question passage embedded_question embedded_passage)
       (\<lambda>(begin, end).
     and_then (and_then (transpose01 begin) (\<lambda>t. restore_original_order passage t 0))
       (\<lambda>begin_original.
     and_then (and_then (transpose01 end) (\<lambda>t. restore_original_order passage t 0))
       (\<lambda>end_original. Inr (begin_original, end_original))))"

subsection \<open>The library's \<^verbatim>\<open>Embedding\<close>, \<^verbatim>\<open>Conv1d\<close> and \<^verbatim>\<open>Linear\<close>\<close>

text \<open>
  An embedding is a table with one row per index. A new \<^verbatim>\<open>nn.Embedding(num, dim,
  padding_idx)\<close> has a random table, here the value \<open>initial num dim\<close> of a parameter,
  with the row of the padding index set to zero, and is trainable. The library keeps
  the padding index with the module and leaves that row out of the gradient; the flag
  \<^verbatim>\<open>requires_grad\<close> of the weight says whether the table is trained at all.
\<close>

record 'a Embedding =
  num_embeddings :: nat
  embedding_dim :: nat
  embedding_padding_idx :: "nat option"
  weight :: "'a list list"
  weight_requires_grad :: bool

definition Embedding_init ::
  "(nat \<Rightarrow> nat \<Rightarrow> 'a list list) \<Rightarrow> nat \<Rightarrow> nat \<Rightarrow> nat option \<Rightarrow> error + ('a::zero) Embedding" where
  "Embedding_init initial num dim pad =
     (case pad of
        None \<Rightarrow>
          Inr \<lparr> num_embeddings = num, embedding_dim = dim, embedding_padding_idx = None,
                weight = initial num dim, weight_requires_grad = True \<rparr>
      | Some p \<Rightarrow>
          if p < num
          then Inr \<lparr> num_embeddings = num, embedding_dim = dim, embedding_padding_idx = Some p,
                     weight = (initial num dim)[p := replicate dim 0],
                     weight_requires_grad = True \<rparr>
          else Inl (IndexError ''padding_idx must be within num_embeddings''))"

text \<open>The lookup of one index raises when the index is not a row of the table; the
  forward pass looks every index of a tensor up and so adds one axis.\<close>

definition Embedding_lookup :: "'a Embedding \<Rightarrow> nat \<Rightarrow> error + 'a list" where
  "Embedding_lookup emb i =
     (if i < length (weight emb) then Inr (weight emb ! i)
      else Inl (IndexError ''index out of range in self''))"

fun Embedding_forward :: "'a Embedding \<Rightarrow> nat tensor \<Rightarrow> error + 'a tensor" where
  "Embedding_forward emb (Scalar i) =
     and_then (Embedding_lookup emb i) (\<lambda>row. Inr (Tensor (map Scalar row)))"
| "Embedding_forward emb (Tensor xs) =
     and_then (sequence (map (Embedding_forward emb) xs)) (\<lambda>ys. Inr (Tensor ys))"

text \<open>
  The learned filters of a convolution and the learned units of a linear layer are
  functions: \<open>conv_filter f window\<close> is the response of filter \<open>f\<close> to a window of
  \<open>kernel_size\<close> positions on every input channel, and \<open>out_unit j x\<close> is output \<open>j\<close> of
  the linear layer on the vector \<open>x\<close>. A convolution without padding has one output
  position per window that fits, and the library raises when none fits; it also raises
  on a convolution that has no filter.
\<close>

record 'a Conv1d =
  in_channels :: nat
  out_channels :: nat
  kernel_size :: nat
  conv_filter :: "nat \<Rightarrow> 'a list list \<Rightarrow> 'a"

record 'a Linear =
  in_features :: nat
  out_features :: nat
  out_unit :: "nat \<Rightarrow> 'a list \<Rightarrow> 'a"

definition Conv1d_forward :: "'a Conv1d \<Rightarrow> 'a list list \<Rightarrow> error + 'a list list" where
  "Conv1d_forward conv x =
     (if out_channels conv = 0
      then Inl (RuntimeError ''expected weight to be at least 1 at dimension 0'')
      else case x of
        [] \<Rightarrow> Inl (RuntimeError ''expected an input with at least one channel'')
      | channel # _ \<Rightarrow>
          if length x \<noteq> in_channels conv
          then Inl (RuntimeError ''the input does not have in_channels channels'')
          else if kernel_size conv = 0 \<or> length channel < kernel_size conv
          then Inl (RuntimeError ''Kernel size can't be greater than actual input size'')
          else Inr (map (\<lambda>f. map (\<lambda>p. conv_filter conv f
                                       (map (\<lambda>c. take (kernel_size conv) (drop p c)) x))
                                [0..<length channel - kernel_size conv + 1])
                        [0..<out_channels conv]))"

definition Linear_forward :: "'a Linear \<Rightarrow> 'a list \<Rightarrow> error + 'a list" where
  "Linear_forward lin x =
     (if length x \<noteq> in_features lin then Inl (RuntimeError ''size mismatch'')
      else Inr (map (\<lambda>j. out_unit lin j x) [0..<out_features lin]))"

subsection \<open>\<^verbatim>\<open>Max\<close>\<close>

text \<open>\<^verbatim>\<open>Max(2)\<close> on a tensor (sample, filter, position) keeps the largest value of every
  filter; \<open>Max_forward\<close> is its effect on one sample.\<close>

definition Max_forward :: "('a::linorder) list list \<Rightarrow> error + 'a list" where
  "Max_forward input =
     sequence (map (\<lambda>positions. case positions of
                       [] \<Rightarrow> Inl (RuntimeError ''cannot perform reduction on an empty axis'')
                     | p # ps \<Rightarrow> Inr (fold max ps p)) input)"

subsection \<open>\<^verbatim>\<open>CharLevelWordEmbeddingCnn\<close>\<close>

record 'a CharLevelWordEmbeddingCnn =
  embed_char :: "'a Embedding"
  embedding_size :: nat
  cnn_layers :: "'a Conv1d list"
  activation :: "'a \<Rightarrow> 'a"
  output_layer :: "'a Linear option"
  output_dim :: nat

text \<open>\<^verbatim>\<open>w.size()\<close> of a table given as the list of its rows.\<close>

definition table_size :: "'a list list \<Rightarrow> nat \<times> nat" where
  "table_size w = (length w, case w of [] \<Rightarrow> 0 | row # _ \<Rightarrow> length row)"

text \<open>
  The constructor. Its first three arguments are the initial values of the parameters
  the library draws at random: the table of \<^verbatim>\<open>nn.Embedding\<close>, the filters of the
  convolution of every filter width, and the units of the output layer. An
  \<^verbatim>\<open>output_dim\<close> of \<^verbatim>\<open>None\<close> or 0 is false in \<^verbatim>\<open>if output_dim\<close>.
\<close>

definition CharLevelWordEmbeddingCnn_init ::
  "(nat \<Rightarrow> nat \<Rightarrow> 'a list list) \<Rightarrow> (nat \<Rightarrow> nat \<Rightarrow> 'a list list \<Rightarrow> 'a) \<Rightarrow> (nat \<Rightarrow> 'a list \<Rightarrow> 'a)
   \<Rightarrow> nat \<Rightarrow> nat \<Rightarrow> nat \<Rightarrow> nat list \<Rightarrow> nat option \<Rightarrow> ('a \<Rightarrow> 'a) \<Rightarrow> 'a list list option
   \<Rightarrow> nat option \<Rightarrow> bool \<Rightarrow> error + ('a::zero) CharLevelWordEmbeddingCnn" where
  "CharLevelWordEmbeddingCnn_init initial_table initial_filters initial_units
       char_embedding_size char_num num_filters ngram_filter_sizes output_dim_arg
       activation_arg embedding_weights padding_idx requires_grad =
     (let (char_num, char_embedding_size) =
            (case embedding_weights of
               Some w \<Rightarrow> table_size w
             | None \<Rightarrow> (char_num, char_embedding_size))
      in and_then (Embedding_init initial_table char_num char_embedding_size padding_idx)
           (\<lambda>embedding.
              let embedding =
                    (case embedding_weights of
                       Some w \<Rightarrow> embedding\<lparr> weight := w, weight_requires_grad := requires_grad \<rparr>
                     | None \<Rightarrow> embedding);
                  layers = map (\<lambda>(i, filter_size).
                                  \<lparr> in_channels = char_embedding_size, out_channels = num_filters,
                                    kernel_size = filter_size, conv_filter = initial_filters i \<rparr>)
                               (enumerate 0 ngram_filter_sizes);
                  conv_out_size = length ngram_filter_sizes * num_filters;
                  configured = (case output_dim_arg of None \<Rightarrow> 0 | Some d \<Rightarrow> d)
              in Inr \<lparr> embed_char = embedding,
                       embedding_size = char_embedding_size,
                       cnn_layers = layers,
                       activation = activation_arg,
                       output_layer =
                         (if configured \<noteq> 0
                          then Some \<lparr> in_features = conv_out_size, out_features = configured,
                                      out_unit = initial_units \<rparr>
                          else None),
                       output_dim = (if configured \<noteq> 0 then configured else conv_out_size) \<rparr>))"

text \<open>
  The forward pass on a tensor of character indices (batch, word, character), given as
  nested lists, with an optional mask. \<open>size3\<close> is \<^verbatim>\<open>tensor.size()\<close>; a tensor has
  no empty axis.

  The character indices are a tensor of integers, and \<^verbatim>\<open>mask.float()\<close> is a tensor
  of floating-point numbers, 1 where the mask is true and 0 where it is false. Their
  product \<^verbatim>\<open>tensor * mask.float()\<close> is a tensor of floating-point numbers (the
  library converts the integers to the type of the other operand; versions of the
  library without this conversion refuse the product), and \<^verbatim>\<open>nn.Embedding\<close> looks
  up a tensor of integers only: it raises on any other. \<open>indices\<close> is the tensor handed
  on after line 148 with its type; of a floating-point tensor only the size is ever read,
  and its entries, the kept indices and zeros, are written as whole numbers.
\<close>

datatype indices = LongTensor "nat list list list" | FloatTensor "nat tensor"

definition size3 :: "'b list list list \<Rightarrow> error + (nat \<times> nat \<times> nat)" where
  "size3 t =
     (case t of
        (chars # words) # batch \<Rightarrow>
          if chars = [] then Inl (RuntimeError ''empty axis'')
          else Inr (length t, length (chars # words), length chars)
      | _ \<Rightarrow> Inl (RuntimeError ''empty axis''))"

definition mask_indices :: "nat list list list \<Rightarrow> bool list list list \<Rightarrow> error + indices" where
  "mask_indices t m =
     and_then (broadcast (\<lambda>c keep. c * (if keep then 1 else 0)) (tensor_of_cube t) (tensor_of_cube m))
       (\<lambda>product. Inr (FloatTensor product))"

definition tensor_size3 :: "'b tensor \<Rightarrow> error + (nat \<times> nat \<times> nat)" where
  "tensor_size3 t =
     (case t of
        Tensor (Tensor (Tensor (Scalar c # cs) # ws) # bs) \<Rightarrow>
          Inr (Suc (length bs), Suc (length ws), Suc (length cs))
      | _ \<Rightarrow> Inl (ValueError ''not enough values to unpack''))"

text \<open>One convolution layer of \<^verbatim>\<open>cnn_layers\<close>, the sequence \<^verbatim>\<open>Conv1d\<close>,
  activation, \<^verbatim>\<open>Max(2)\<close>, on every sample of the batch.\<close>

definition cnn_layer_forward ::
  "('a \<Rightarrow> 'a) \<Rightarrow> ('a::linorder) Conv1d \<Rightarrow> 'a list list list \<Rightarrow> error + 'a list list" where
  "cnn_layer_forward act layer samples =
     sequence (map (\<lambda>x. and_then (Conv1d_forward layer x)
                           (\<lambda>y. Max_forward (map (map act) y))) samples)"

text \<open>\<^verbatim>\<open>output.view(batch_num, word_num, -1)\<close> on the list of the samples' vectors.\<close>

definition view3 :: "nat \<Rightarrow> nat \<Rightarrow> 'a list list \<Rightarrow> error + 'a list list list" where
  "view3 batch_num word_num rows =
     (if batch_num * word_num = 0 \<or> length rows \<noteq> batch_num * word_num
      then Inl (RuntimeError ''size is invalid for input'')
      else Inr (map (\<lambda>i. take word_num (drop (i * word_num) rows)) [0..<batch_num]))"

text \<open>The input of the convolutions (lines 147 to 151): the indices, multiplied by
  the mask when there is one, flattened to one row of characters per word, embedded, and
  transposed to (sample, channel, position).\<close>

definition embedded_characters ::
  "'a CharLevelWordEmbeddingCnn \<Rightarrow> nat list list list \<Rightarrow> bool list list list option
   \<Rightarrow> error + ((nat \<times> nat \<times> nat) \<times> 'a list list list)" where
  "embedded_characters self t mask_arg =
     and_then (case mask_arg of None \<Rightarrow> Inr (LongTensor t) | Some m \<Rightarrow> mask_indices t m)
       (\<lambda>tensor.
          case tensor of
            LongTensor t \<Rightarrow>
              and_then (size3 t) (\<lambda>(batch_num, word_num, char_num).
              and_then (sequence (map (\<lambda>row. sequence (map (Embedding_lookup (embed_char self)) row))
                                      (concat t)))
                (\<lambda>embedded. Inr ((batch_num, word_num, char_num), map transpose embedded)))
          | FloatTensor product \<Rightarrow>
              and_then (tensor_size3 product) (\<lambda>(batch_num, word_num, char_num).
                Inl (RuntimeError
                  ''Expected tensor for argument #1 'indices' to have scalar type Long'')))"

definition CharLevelWordEmbeddingCnn_forward ::
  "('a::linorder) CharLevelWordEmbeddingCnn \<Rightarrow> nat list list list \<Rightarrow> bool list list list option
   \<Rightarrow> error + 'a list list list" where
  "CharLevelWordEmbeddingCnn_forward self t mask_arg =
     and_then (embedded_characters self t mask_arg) (\<lambda>((batch_num, word_num, char_num), t).
     and_then (sequence (map (\<lambda>layer. cnn_layer_forward (activation self) layer t)
                             (cnn_layers self))) (\<lambda>conv_out.
     and_then (if length conv_out > 1 then Inr (map concat (transpose conv_out))
               else (case conv_out of
                       [] \<Rightarrow> Inl (IndexError ''list index out of range'')
                     | c # _ \<Rightarrow> Inr c)) (\<lambda>output.
     and_then (case output_layer self of
                 Some lin \<Rightarrow> sequence (map (Linear_forward lin) output)
               | None \<Rightarrow> Inr output) (\<lambda>output.
       view3 batch_num word_num output))))"

subsection \<open>\<^verbatim>\<open>WordEmbedding\<close>\<close>

record 'a WordEmbedding =
  word_embedding_word_level :: "'a Embedding"
  word_output_dim :: nat

definition WordEmbedding_init ::
  "(nat \<Rightarrow> nat \<Rightarrow> 'a list list) \<Rightarrow> 'a list list \<Rightarrow> nat option \<Rightarrow> bool
   \<Rightarrow> error + ('a::zero) WordEmbedding" where
  "WordEmbedding_init initial_table word_embedding padding_idx requires_grad =
     (let (word_vocab_size, word_embedding_dim) = table_size word_embedding
      in and_then (Embedding_init initial_table word_vocab_size word_embedding_dim padding_idx)
           (\<lambda>embedding.
              Inr \<lparr> word_embedding_word_level =
                       embedding\<lparr> weight := word_embedding, weight_requires_grad := requires_grad \<rparr>,
                     word_output_dim = word_embedding_dim \<rparr>))"

definition WordEmbedding_forward ::
  "'a WordEmbedding \<Rightarrow> nat tensor list \<Rightarrow> error + 'a tensor list" where
  "WordEmbedding_forward self tensors =
     sequence (map (\<lambda>t. Embedding_forward (word_embedding_word_level self) t) tensors)"

subsection \<open>\<^verbatim>\<open>Model\<close>\<close>

text \<open>
  Modelled from the spec: the class \<^verbatim>\<open>CharDocuments\<close> of \<^verbatim>\<open>utils.dataset\<close>, of
  which the source reads the tensor of character indices (batch, word, character) only.
\<close>

record CharDocuments =
  char_tensor :: "nat list list list"

record 'a Model =
  model_word_embedding :: "'a WordEmbedding"
  model_char_embedding :: "'a CharLevelWordEmbeddingCnn"
  model_r_net :: "'a RNet"

text \<open>The forward pass. Moving the tensors to the accelerator (lines 297 to 303) does
  not change their values and is left out.\<close>

definition Model_forward ::
  "('a::{zero,plus,linorder}) Model \<Rightarrow> 'a Documents \<Rightarrow> CharDocuments \<Rightarrow> 'a Documents
   \<Rightarrow> CharDocuments \<Rightarrow> error + ('a tensor \<times> 'a tensor)" where
  "Model_forward self question question_char passage passage_char =
     and_then (WordEmbedding_forward (model_word_embedding self) [tensor question, tensor passage])
       (\<lambda>embedded.
          case embedded of
            [embedded_question, embedded_passage] \<Rightarrow>
              and_then (CharLevelWordEmbeddingCnn_forward (model_char_embedding self)
                          (char_tensor question_char) None) (\<lambda>embedded_question_char.
              and_then (CharLevelWordEmbeddingCnn_forward (model_char_embedding self)
                          (char_tensor passage_char) None) (\<lambda>embedded_passage_char.
              and_then (cat_dim 2 embedded_passage (tensor_of_cube embedded_passage_char))
                (\<lambda>embedded_passage_merged.
              and_then (cat_dim 2 embedded_question (tensor_of_cube embedded_question_char))
                (\<lambda>embedded_question_merged.
                   RNet_forward (model_r_net self) question passage
                     embedded_question_merged embedded_passage_merged))))
          | _ \<Rightarrow> Inl (ValueError ''not enough values to unpack''))"

section \<open>Notions used in the statements\<close>

text \<open>A tensor is aligned to a batch of \<open>n\<close> examples on axis \<open>dim\<close> when that axis
  exists everywhere in the tensor and has size \<open>n\<close>.\<close>

primrec batch_aligned :: "nat \<Rightarrow> nat \<Rightarrow> 'a tensor \<Rightarrow> bool" where
  "batch_aligned n 0 t = (case t of Scalar _ \<Rightarrow> False | Tensor xs \<Rightarrow> length xs = n)"
| "batch_aligned n (Suc d) t =
     (case t of Scalar _ \<Rightarrow> False | Tensor xs \<Rightarrow> list_all (batch_aligned n d) xs)"

text \<open>
  A packed sequence as the library produces it: at least one step, batch sizes that are
  positive and never grow, and one entry of data per running sequence and step.
\<close>

definition wf_packed :: "'a PackedSequence \<Rightarrow> bool" where
  "wf_packed p =
     (batch_sizes p \<noteq> [] \<and> sorted (rev (batch_sizes p)) \<and> list_all (\<lambda>n. 0 < n) (batch_sizes p)
      \<and> length (data p) = sum_list (batch_sizes p))"

definition packed_lengths :: "'a PackedSequence \<Rightarrow> nat list" where
  "packed_lengths p = map (count_longer (batch_sizes p)) [0..<hd (batch_sizes p)]"

text \<open>The padded tensor of a packed sequence.\<close>

definition padded :: "('a::zero) PackedSequence \<Rightarrow> 'a tensor" where
  "padded p = Tensor (map Tensor (pad_rows (zeros_like (hd (data p))) (hd (batch_sizes p))
                                   (data p) (batch_sizes p)))"

text \<open>The selection along an axis without the checks of \<open>index_select\<close>.\<close>

primrec gather :: "nat \<Rightarrow> nat list \<Rightarrow> 'a tensor \<Rightarrow> 'a tensor" where
  "gather 0 index t =
     (case t of Scalar a \<Rightarrow> Scalar a | Tensor xs \<Rightarrow> Tensor (map (\<lambda>i. xs ! i) index))"
| "gather (Suc d) index t =
     (case t of Scalar a \<Rightarrow> Scalar a | Tensor xs \<Rightarrow> Tensor (map (gather d index) xs))"


text \<open>\<open>has_shape [n\<^sub>0, n\<^sub>1, \<dots>] t\<close>: the tensor \<open>t\<close> has exactly these axes, of these sizes.
  \<open>select_index dim i t\<close> is the library's \<^verbatim>\<open>t.select(dim, i)\<close>, the slice of \<open>t\<close> at
  index \<open>i\<close> of axis \<open>dim\<close>, and \<open>untensor\<close> lists the sub-tensors along axis 0.\<close>

primrec has_shape :: "nat list \<Rightarrow> 'a tensor \<Rightarrow> bool" where
  "has_shape [] t = (case t of Scalar _ \<Rightarrow> True | Tensor _ \<Rightarrow> False)"
| "has_shape (n # ns) t =
     (case t of Scalar _ \<Rightarrow> False | Tensor xs \<Rightarrow> length xs = n \<and> list_all (has_shape ns) xs)"

primrec select_index :: "nat \<Rightarrow> nat \<Rightarrow> 'a tensor \<Rightarrow> 'a tensor" where
  "select_index 0 i t = (case t of Scalar a \<Rightarrow> Scalar a | Tensor xs \<Rightarrow> xs ! i)"
| "select_index (Suc d) i t =
     (case t of Scalar a \<Rightarrow> Scalar a | Tensor xs \<Rightarrow> Tensor (map (select_index d i) xs))"

definition untensor :: "'a tensor \<Rightarrow> 'a tensor list" where
  "untensor t = (case t of Tensor cs \<Rightarrow> cs | Scalar _ \<Rightarrow> [])"

text \<open>
  The passage representation as claim C9 words it, for comparison with
  \<open>RNet_passage_representation\<close>: the residual added after pair encoding is the pair
  encoder's input, and the residual added after self matching is the pair encoder's output
  rather than the input of the self-matching encoder.
\<close>

definition passage_representation_as_claimed ::
  "('a::{zero,plus}) RNet \<Rightarrow> 'a Documents \<Rightarrow> 'a PackedSequence \<Rightarrow> 'a tensor \<Rightarrow> 'a tensor
   \<Rightarrow> error + 'a PackedSequence" where
  "passage_representation_as_claimed self passage passage_pack question_pad question_mask =
     (let pair_output = RNet_pair_encode self passage_pack question_pad question_mask
      in and_then (pack_residual pair_output passage_pack) (\<lambda>self_matcher_input.
         and_then (RNet_self_match_encode self self_matcher_input passage) (\<lambda>self_matched.
           pack_residual pair_output self_matched)))"

text \<open>\<open>cube b w c t\<close>: the nested list \<open>t\<close> is a tensor of shape (\<open>b\<close>, \<open>w\<close>, \<open>c\<close>);
  \<open>matrix n d rows\<close>: \<open>rows\<close> is a tensor of shape (\<open>n\<close>, \<open>d\<close>).\<close>

definition cube :: "nat \<Rightarrow> nat \<Rightarrow> nat \<Rightarrow> 'b list list list \<Rightarrow> bool" where
  "cube b w c t =
     (length t = b \<and> list_all (\<lambda>ws. length ws = w \<and> list_all (\<lambda>cs. length cs = c) ws) t)"

definition matrix :: "nat \<Rightarrow> nat \<Rightarrow> 'b list list \<Rightarrow> bool" where
  "matrix n d rows = (length rows = n \<and> list_all (\<lambda>r. length r = d) rows)"

section \<open>A small instance\<close>

text \<open>
  An instance of the parameters over the integers, for the examples that follow: a
  pooling whose score at a key position is the mask times the sum of the key's and the
  queries' entries and whose pooled result sums the keys of each example, recurrent
  encoders that return the sequence they are given, attention encoders that double every
  entry of the passage, and a cell that returns its input. The batch has two
  questions, of lengths 3 and 2, and two passages, of lengths 2 and 4, so the passage is
  sorted into the order \<open>[1, 0]\<close> and the question stays in the order \<open>[0, 1]\<close>.
\<close>

fun leaf_sum :: "int tensor \<Rightarrow> int" where
  "leaf_sum (Scalar a) = a"
| "leaf_sum (Tensor xs) = sum_list (map leaf_sum xs)"

definition example_pooling :: "int AttentionPooling" where
  "example_pooling key queries key_mask broadcast_key =
     (let key_rows = map untensor (untensor key);
          mask_rows = map untensor (untensor key_mask)
      in (Tensor [Tensor (map (\<lambda>col. Tensor [Scalar (sum_list (map leaf_sum col))]) (transpose key_rows))],
          Tensor (map (\<lambda>(key_row, mask_row).
                    Tensor (map (\<lambda>(k, m). Scalar (leaf_sum m * (leaf_sum k + leaf_sum queries)))
                              (zip key_row mask_row)))
                  (zip key_rows mask_rows))))"

definition example_rnn :: "int RNN" where
  "example_rnn p = (p, Tensor [])"

definition example_encoder :: "int AttentionEncoder" where
  "example_encoder inputs =
     (case inputs of (passage, keys, key_mask) \<Rightarrow>
        (passage\<lparr> data := map (map_tensor (\<lambda>v. 2 * v)) (data passage) \<rparr>, Tensor []))"

definition example_cell :: "int StackedCell" where
  "example_cell input hidden = (input, hidden)"

definition example_net :: "bool \<Rightarrow> int RNet" where
  "example_net res =
     \<lparr> sentence_encoding = \<lparr> question_encoder = example_rnn, passage_encoder = example_rnn \<rparr>,
       pair_encoder = example_encoder,
       self_matching_encoder = example_encoder,
       pointer_output = \<lparr> num_layers = 1, question_pooling = example_pooling,
                          passage_pooling = example_pooling,
                          V_q = Tensor [Tensor [Tensor [Scalar 1]]], cell = example_cell \<rparr>,
       residual = res \<rparr>"

fun example_embed :: "nat tensor \<Rightarrow> int tensor" where
  "example_embed (Scalar n) = Tensor [Scalar (int n)]"
| "example_embed (Tensor xs) = Tensor (map example_embed xs)"

definition example_question :: "int Documents" where
  "example_question = Documents_init 0 [[1, 2, 3], [4, 5]]"

definition example_passage :: "int Documents" where
  "example_passage = Documents_init 0 [[10, 20], [30, 40, 50, 60]]"

text \<open>The packed question and passage of the instance after sentence encoding.\<close>

definition example_question_pack :: "int PackedSequence" where
  "example_question_pack =
     \<lparr> data = [Tensor [Scalar 1], Tensor [Scalar 4], Tensor [Scalar 2], Tensor [Scalar 5],
                Tensor [Scalar 3]],
       batch_sizes = [2, 2, 1] \<rparr>"

definition example_passage_pack :: "int PackedSequence" where
  "example_passage_pack =
     \<lparr> data = [Tensor [Scalar 30], Tensor [Scalar 10], Tensor [Scalar 40], Tensor [Scalar 20],
                Tensor [Scalar 50], Tensor [Scalar 60]],
       batch_sizes = [2, 2, 1, 1] \<rparr>"

text \<open>The question states and the question mask of the instance in the passage's sorted
  order.\<close>

definition example_question_pad :: "int tensor" where
  "example_question_pad =
     Tensor [Tensor [Tensor [Scalar 4], Tensor [Scalar 1]],
             Tensor [Tensor [Scalar 5], Tensor [Scalar 2]],
             Tensor [Tensor [Scalar 0], Tensor [Scalar 3]]]"

definition example_question_mask :: "int tensor" where
  "example_question_mask =
     Tensor [Tensor [Scalar 1, Scalar 1], Tensor [Scalar 1, Scalar 1], Tensor [Scalar 0, Scalar 1]]"

text \<open>Initial values for the parameters of the embedding modules, and the activation
  \<^verbatim>\<open>ReLU\<close>, over the integers.\<close>

definition example_initial_table :: "nat \<Rightarrow> nat \<Rightarrow> int list list" where
  "example_initial_table num dim = map (\<lambda>i. map (\<lambda>j. int (10 * i + j + 1)) [0..<dim]) [0..<num]"

definition example_initial_filters :: "nat \<Rightarrow> nat \<Rightarrow> int list list \<Rightarrow> int" where
  "example_initial_filters i f window = int (f + 1) * sum_list (map sum_list window)"

definition example_initial_units :: "nat \<Rightarrow> int list \<Rightarrow> int" where
  "example_initial_units j x = int j + sum_list x"

definition relu :: "int \<Rightarrow> int" where
  "relu v = max 0 v"

text \<open>A character encoder with the default padding index 1, three characters, an
  embedding of size 1, and one filter width, 2, with two filters; it is what the
  constructor builds from the initial values above.\<close>

definition example_char_cnn :: "int CharLevelWordEmbeddingCnn" where
  "example_char_cnn =
     \<lparr> embed_char = \<lparr> num_embeddings = 3, embedding_dim = 1, embedding_padding_idx = Some 1,
                      weight = [[1], [0], [21]], weight_requires_grad = True \<rparr>,
       embedding_size = 1,
       cnn_layers = [\<lparr> in_channels = 1, out_channels = 2, kernel_size = 2,
                       conv_filter = example_initial_filters 0 \<rparr>],
       activation = relu,
       output_layer = None,
       output_dim = 2 \<rparr>"

text \<open>Two more character encoders: one built from given weights of three characters
  and embedding size 2, with the filter widths 2 and 3, two filters each, and an output
  layer of size 3; and one with the constructor's default filter width, 5.\<close>

definition example_char_cnn_projected :: "int CharLevelWordEmbeddingCnn" where
  "example_char_cnn_projected =
     \<lparr> embed_char = \<lparr> num_embeddings = 3, embedding_dim = 2, embedding_padding_idx = Some 1,
                      weight = [[1, 2], [3, 4], [5, 6]], weight_requires_grad = False \<rparr>,
       embedding_size = 2,
       cnn_layers = [\<lparr> in_channels = 2, out_channels = 2, kernel_size = 2,
                       conv_filter = example_initial_filters 0 \<rparr>,
                     \<lparr> in_channels = 2, out_channels = 2, kernel_size = 3,
                       conv_filter = example_initial_filters 1 \<rparr>],
       activation = relu,
       output_layer = Some \<lparr> in_features = 4, out_features = 3, out_unit = example_initial_units \<rparr>,
       output_dim = 3 \<rparr>"

definition example_char_cnn_default :: "int CharLevelWordEmbeddingCnn" where
  "example_char_cnn_default =
     \<lparr> embed_char = \<lparr> num_embeddings = 3, embedding_dim = 1, embedding_padding_idx = Some 1,
                      weight = [[1], [0], [21]], weight_requires_grad = True \<rparr>,
       embedding_size = 1,
       cnn_layers = [\<lparr> in_channels = 1, out_channels = 2, kernel_size = 5,
                       conv_filter = example_initial_filters 0 \<rparr>],
       activation = relu,
       output_layer = None,
       output_dim = 2 \<rparr>"

text \<open>A whole model: a word table of three words with embedding size 1, the first
  character encoder above and the network of the instance, with a batch of two short
  questions and passages and their characters.\<close>

definition example_model :: "int Model" where
  "example_model =
     \<lparr> model_word_embedding =
         \<lparr> word_embedding_word_level =
             \<lparr> num_embeddings = 3, embedding_dim = 1, embedding_padding_idx = Some 0,
               weight = [[0], [1], [2]], weight_requires_grad = False \<rparr>,
           word_output_dim = 1 \<rparr>,
       model_char_embedding = example_char_cnn,
       model_r_net = example_net False \<rparr>"

definition example_model_question :: "int Documents" where
  "example_model_question = Documents_init 0 [[1, 2, 2], [2, 1]]"

definition example_model_passage :: "int Documents" where
  "example_model_passage = Documents_init 0 [[1, 2], [2, 1, 1, 2]]"

definition example_model_question_char :: CharDocuments where
  "example_model_question_char =
     \<lparr> char_tensor = [[[0, 2], [2, 2], [2, 0]], [[2, 0], [0, 2], [1, 1]]] \<rparr>"

definition example_model_passage_char :: CharDocuments where
  "example_model_passage_char =
     \<lparr> char_tensor = [[[2, 0], [0, 2], [0, 2], [2, 2]], [[0, 2], [2, 2], [1, 1], [1, 1]]] \<rparr>"


text \<open>A pair encoder that reads its keys and key mask: to every entry of the packed
  passage it adds the sum of the unmasked key entries of the same batch position. In the
  instance with this pair encoder every passage position carries the sum of the tokens
  of the question asked about that passage.\<close>

definition example_key_sum :: "int tensor \<Rightarrow> int tensor \<Rightarrow> nat \<Rightarrow> int" where
  "example_key_sum keys key_mask j =
     sum_list (map (\<lambda>(key_row, mask_row). leaf_sum (mask_row ! j) * leaf_sum (key_row ! j))
                   (zip (map untensor (untensor keys)) (map untensor (untensor key_mask))))"

definition example_key_encoder :: "int AttentionEncoder" where
  "example_key_encoder inputs =
     (case inputs of (passage, keys, key_mask) \<Rightarrow>
        (passage\<lparr> data := map (\<lambda>(entry, j). map_tensor (\<lambda>v. v + example_key_sum keys key_mask j) entry)
                              (zip (data passage) (concat (map (\<lambda>n. [0..<n]) (batch_sizes passage)))) \<rparr>,
         Tensor []))"

definition example_net_keyed :: "int RNet" where
  "example_net_keyed = (example_net False)\<lparr> pair_encoder := example_key_encoder \<rparr>"
section \<open>Selections along an axis\<close>

lemma sequence_map_Inr:
  "(\<And>x. x \<in> set xs \<Longrightarrow> f x = Inr (g x)) \<Longrightarrow> sequence (map f xs) = Inr (map g xs)"
  by (induction xs) auto

lemma index_select_gather:
  "batch_aligned n dim t \<Longrightarrow> list_all (\<lambda>i. i < n) index \<Longrightarrow>
   index_select dim index t = Inr (gather dim index t)"
proof (induction dim arbitrary: t)
  case 0
  then show ?case by (cases t) auto
next
  case (Suc d)
  then obtain xs where t: "t = Tensor xs" and al: "list_all (batch_aligned n d) xs"
    by (cases t) auto
  have "sequence (map (index_select d index) xs) = Inr (map (gather d index) xs)"
    using al Suc.IH Suc.prems(2) by (intro sequence_map_Inr) (auto simp: list_all_iff)
  then show ?case by (simp add: t and_then_def)
qed

lemma gather_aligned:
  "batch_aligned n dim t \<Longrightarrow> batch_aligned (length index) dim (gather dim index t)"
proof (induction dim arbitrary: t)
  case 0
  then show ?case by (cases t) auto
next
  case (Suc d)
  then show ?case by (cases t) (auto simp: list_all_iff)
qed

lemma gather_gather:
  "batch_aligned n dim t \<Longrightarrow> list_all (\<lambda>i. i < length ix1) ix2 \<Longrightarrow>
   gather dim ix2 (gather dim ix1 t) = gather dim (map (\<lambda>i. ix1 ! i) ix2) t"
proof (induction dim arbitrary: t)
  case 0
  then show ?case by (cases t) (auto simp: list_all_iff)
next
  case (Suc d)
  then show ?case by (cases t) (auto simp: list_all_iff)
qed

lemma gather_upt:
  "batch_aligned n dim t \<Longrightarrow> gather dim [0..<n] t = t"
proof (induction dim arbitrary: t)
  case 0
  then show ?case by (cases t) (auto simp: map_nth)
next
  case (Suc d)
  then show ?case by (cases t) (auto simp: list_all_iff map_idI)
qed

section \<open>The stored permutation and its inverse\<close>

lemma sort_idx_right_inverse:
  assumes "set p = {0..<length p}" "distinct p"
  shows "map (\<lambda>i. p ! i) (sort_idx p) = [0..<length p]"
proof -
  let ?q = "sort_idx p"
  have q: "set ?q = {0..<length p}" "distinct ?q"
    by (auto simp: sort_idx_def)
  have s: "sorted (map (\<lambda>i. p ! i) ?q)"
    unfolding sort_idx_def by (rule sorted_sort_key)
  have inj: "inj_on (\<lambda>i. p ! i) {0..<length p}"
    using assms(2) by (auto simp: inj_on_def nth_eq_iff_index_eq)
  have d: "distinct (map (\<lambda>i. p ! i) ?q)"
    using q inj by (simp add: distinct_map)
  have "set (map (\<lambda>i. p ! i) ?q) = (\<lambda>i. p ! i) ` {0..<length p}"
    using q by simp
  also have "\<dots> = set p"
    by (auto simp: set_conv_nth)
  finally have st: "set (map (\<lambda>i. p ! i) ?q) = set [0..<length p]"
    using assms(1) by simp
  show ?thesis
    by (rule sorted_distinct_set_unique[OF s d _ _ st]) simp_all
qed

lemma sort_idx_left_inverse:
  assumes "set p = {0..<length p}" "distinct p"
  shows "map (\<lambda>i. sort_idx p ! i) p = [0..<length p]"
proof (rule nth_equalityI)
  show "length (map (\<lambda>i. sort_idx p ! i) p) = length [0..<length p]" by simp
next
  fix j assume "j < length (map (\<lambda>i. sort_idx p ! i) p)"
  then have j: "j < length p" by simp
  let ?q = "sort_idx p"
  have ql: "length ?q = length p" and qs: "set ?q = {0..<length p}"
    by (auto simp: sort_idx_def)
  have pj: "p ! j < length p" using assms(1) j nth_mem by fastforce
  then have qpj: "?q ! (p ! j) < length p"
    using qs ql nth_mem by fastforce
  have "p ! (?q ! (p ! j)) = [0..<length p] ! (p ! j)"
    using sort_idx_right_inverse[OF assms] pj ql
    by (metis nth_map)
  then have "p ! (?q ! (p ! j)) = p ! j" using pj by simp
  then have "?q ! (p ! j) = j"
    using assms(2) qpj j by (simp add: nth_eq_iff_index_eq)
  then show "map (\<lambda>i. sort_idx p ! i) p ! j = [0..<length p] ! j"
    using j by simp
qed

lemma Documents_init_perm:
  fixes doc :: "('a::{zero,one}) Documents"
  assumes "doc = Documents_init padding seqs"
  shows "set (sorted_idx doc) = {0..<length seqs}"
    and "distinct (sorted_idx doc)"
    and "length (sorted_idx doc) = length seqs"
    and "original_idx doc = sort_idx (sorted_idx doc)"
    and "length (original_idx doc) = length seqs"
    and "set (original_idx doc) = {0..<length seqs}"
  using assms by (auto simp: Documents_init_def Let_def sort_idx_def)

lemma Documents_init_inverse:
  fixes doc :: "('a::{zero,one}) Documents"
  assumes "doc = Documents_init padding seqs"
  shows "map (\<lambda>i. sorted_idx doc ! i) (original_idx doc) = [0..<length seqs]"
    and "map (\<lambda>i. original_idx doc ! i) (sorted_idx doc) = [0..<length seqs]"
proof -
  note p = Documents_init_perm[OF assms]
  have s: "set (sorted_idx doc) = {0..<length (sorted_idx doc)}"
    using p(1,3) by simp
  show "map (\<lambda>i. sorted_idx doc ! i) (original_idx doc) = [0..<length seqs]"
    using sort_idx_right_inverse[OF s p(2)] p(3,4) by simp
  show "map (\<lambda>i. original_idx doc ! i) (sorted_idx doc) = [0..<length seqs]"
    using sort_idx_left_inverse[OF s p(2)] p(3,4) by simp
qed

lemma to_sorted_order_gather:
  fixes doc :: "('a::{zero,one}) Documents"
  assumes "doc = Documents_init padding seqs" "batch_aligned (length seqs) dim X"
  shows "to_sorted_order doc X dim = Inr (gather dim (sorted_idx doc) X)"
  unfolding to_sorted_order_def
  using Documents_init_perm(1)[OF assms(1)]
  by (intro index_select_gather[OF assms(2)]) (auto simp: list_all_iff)

lemma restore_original_order_gather:
  fixes doc :: "('a::{zero,one}) Documents"
  assumes "doc = Documents_init padding seqs" "batch_aligned (length seqs) dim X"
  shows "restore_original_order doc X dim = Inr (gather dim (original_idx doc) X)"
  unfolding restore_original_order_def
  using Documents_init_perm(6)[OF assms(1)]
  by (intro index_select_gather[OF assms(2)]) (auto simp: list_all_iff)

lemma gather_restore_sorted:
  fixes doc :: "('a::{zero,one}) Documents"
  assumes "doc = Documents_init padding seqs" "batch_aligned (length seqs) dim X"
  shows "gather dim (original_idx doc) (gather dim (sorted_idx doc) X) = X"
proof -
  note p = Documents_init_perm[OF assms(1)]
  have "list_all (\<lambda>i. i < length (sorted_idx doc)) (original_idx doc)"
    using p(3,6) by (auto simp: list_all_iff)
  then have "gather dim (original_idx doc) (gather dim (sorted_idx doc) X)
      = gather dim (map (\<lambda>i. sorted_idx doc ! i) (original_idx doc)) X"
    by (rule gather_gather[OF assms(2)])
  then show ?thesis
    using Documents_init_inverse(1)[OF assms(1)] gather_upt[OF assms(2)] by simp
qed

lemma gather_sorted_restore:
  fixes doc :: "('a::{zero,one}) Documents"
  assumes "doc = Documents_init padding seqs" "batch_aligned (length seqs) dim X"
  shows "gather dim (sorted_idx doc) (gather dim (original_idx doc) X) = X"
proof -
  note p = Documents_init_perm[OF assms(1)]
  have "list_all (\<lambda>i. i < length (original_idx doc)) (sorted_idx doc)"
    using p(1,5) by (auto simp: list_all_iff)
  then have "gather dim (sorted_idx doc) (gather dim (original_idx doc) X)
      = gather dim (map (\<lambda>i. original_idx doc ! i) (sorted_idx doc)) X"
    by (rule gather_gather[OF assms(2)])
  then show ?thesis
    using Documents_init_inverse(2)[OF assms(1)] gather_upt[OF assms(2)] by simp
qed

section \<open>Sums of tensors and packed sequences\<close>









lemma sorted_rev_le_hd:
  assumes "sorted (rev bs)" "t < length bs"
  shows "bs ! t \<le> hd bs"
  using sorted_rev_nth_mono[OF assms(1), of 0 t] assms(2) by (cases bs) auto







lemma wf_packed_data: "wf_packed p \<Longrightarrow> data p \<noteq> []"
  by (cases "batch_sizes p") (auto simp: wf_packed_def)

lemma pad_packed_sequence_wf:
  "wf_packed p \<Longrightarrow> pad_packed_sequence p = Inr (padded p, packed_lengths p)"
  using wf_packed_data[of p]
  by (cases "batch_sizes p"; cases "data p")
     (auto simp: pad_packed_sequence_def padded_def packed_lengths_def wf_packed_def)





lemma sequence_length: "sequence rs = Inr vs \<Longrightarrow> length vs = length rs"
  by (induction rs arbitrary: vs) (auto split: sum.splits)




section \<open>Transposition and the restored order\<close>

lemma has_shape_rows:
  assumes "has_shape (m # n # ns) t"
  shows "\<exists>rs. t = Tensor (map Tensor rs) \<and> length rs = m
            \<and> (\<forall>r\<in>set rs. length r = n \<and> list_all (has_shape ns) r)"
proof -
  from assms obtain xs where t: "t = Tensor xs" and l: "length xs = m"
    and a: "list_all (has_shape (n # ns)) xs"
    by (cases t) auto
  have e: "\<forall>x\<in>set xs. \<exists>r. x = Tensor r \<and> length r = n \<and> list_all (has_shape ns) r"
  proof
    fix x assume "x \<in> set xs"
    then have "has_shape (n # ns) x" using a by (simp add: list_all_iff)
    then show "\<exists>r. x = Tensor r \<and> length r = n \<and> list_all (has_shape ns) r"
      by (cases x) auto
  qed
  then have xs: "xs = map Tensor (map untensor xs)"
    by (auto simp: untensor_def intro!: map_idI[symmetric])
  have "\<forall>r\<in>set (map untensor xs). length r = n \<and> list_all (has_shape ns) r"
    using e by (auto simp: untensor_def)
  then show ?thesis using t l xs by (intro exI[of _ "map untensor xs"]) auto
qed

lemma transpose01_rows:
  "transpose01 (Tensor (map Tensor rs)) = Inr (Tensor (map Tensor (transpose rs)))"
proof -
  have "map (\<lambda>r. case r of Tensor cs \<Rightarrow> cs | Scalar _ \<Rightarrow> []) (map Tensor rs) = rs"
    by (simp add: comp_def)
  then show ?thesis by (simp add: list_all_iff)
qed

lemma transpose_rect:
  assumes "rs \<noteq> []" "\<And>r. r \<in> set rs \<Longrightarrow> length r = n"
  shows "transpose rs = map (\<lambda>i. map (\<lambda>r. r ! i) rs) [0..<n]"
proof -
  have "transpose rs = map (\<lambda>i. map (\<lambda>j. rs ! j ! i) [0..<length rs]) [0..<n]"
    using assms by (intro transpose_rectangle) auto
  moreover have "map (\<lambda>j. rs ! j ! i) [0..<length rs] = map (\<lambda>r. r ! i) rs" for i
    by (rule nth_equalityI) auto
  ultimately show ?thesis by simp
qed

lemma transposed_scores:
  assumes "has_shape [L, n] t" "0 < L"
  shows "\<exists>cols. transpose01 t = Inr (Tensor cols) \<and> length cols = n
            \<and> has_shape [n, L] (Tensor cols)
            \<and> (\<forall>j<n. cols ! j = select_index 1 j t)"
proof -
  obtain rs where t: "t = Tensor (map Tensor rs)" and l: "length rs = L"
    and r: "\<And>r. r \<in> set rs \<Longrightarrow> length r = n \<and> list_all (has_shape []) r"
    using has_shape_rows[OF assms(1)] by blast
  have ne: "rs \<noteq> []" using l assms(2) by auto
  have tr: "transpose rs = map (\<lambda>i. map (\<lambda>r. r ! i) rs) [0..<n]"
    using r by (intro transpose_rect[OF ne]) auto
  let ?cols = "map Tensor (transpose rs)"
  have 1: "transpose01 t = Inr (Tensor ?cols)" by (simp only: t transpose01_rows)
  have 2: "length ?cols = n" by (simp add: tr)
  have 3: "has_shape [n, L] (Tensor ?cols)"
    using r l by (auto simp: tr list_all_iff)
  have 4: "\<forall>j<n. ?cols ! j = select_index 1 j t"
    by (simp add: tr t comp_def)
  show ?thesis using 1 2 3 4 by blast
qed

lemma restore_rows:
  fixes passage :: "('a::{zero,one}) Documents"
  assumes "passage = Documents_init padding seqs" "length cols = length seqs"
  shows "restore_original_order passage (Tensor cols) 0
       = Inr (Tensor (map (\<lambda>i. cols ! i) (original_idx passage)))"
  using restore_original_order_gather[OF assms(1), of 0 "Tensor cols"] assms(2) by simp

lemma restored_logits:
  fixes passage :: "('a::{zero,one}) Documents"
  assumes "passage = Documents_init padding seqs"
    and "has_shape [L, length seqs] t" and "0 < L"
  shows "\<exists>b. and_then (transpose01 t) (\<lambda>u. restore_original_order passage u 0) = Inr b
           \<and> has_shape [length seqs, L] b
           \<and> b = Tensor (map (\<lambda>i. select_index 1 i t) (original_idx passage))
           \<and> (\<forall>j<length seqs. select_index 0 (sorted_idx passage ! j) b = select_index 1 j t)"
proof -
  let ?n = "length seqs"
  note p = Documents_init_perm[OF assms(1)]
  obtain cols where tr: "transpose01 t = Inr (Tensor cols)" and l: "length cols = ?n"
    and sh: "has_shape [?n, L] (Tensor cols)"
    and col: "\<forall>j<?n. cols ! j = select_index 1 j t"
    using transposed_scores[OF assms(2,3)] by blast
  let ?b = "Tensor (map (\<lambda>i. cols ! i) (original_idx passage))"
  have oi: "\<And>i. i \<in> set (original_idx passage) \<Longrightarrow> i < ?n" using p(6) by simp
  have 1: "and_then (transpose01 t) (\<lambda>u. restore_original_order passage u 0) = Inr ?b"
    using restore_rows[OF assms(1) l] by (simp add: tr and_then_def)
  have 2: "has_shape [?n, L] ?b"
    using sh p(5) oi l by (auto simp: list_all_iff)
  have 3: "?b = Tensor (map (\<lambda>i. select_index 1 i t) (original_idx passage))"
    using col oi by simp
  have 4: "select_index 0 (sorted_idx passage ! j) ?b = select_index 1 j t" if j: "j < ?n" for j
  proof -
    have sj: "sorted_idx passage ! j < ?n"
      using p(1,3) j nth_mem[of j "sorted_idx passage"] by auto
    have "map (\<lambda>i. original_idx passage ! i) (sorted_idx passage) ! j = [0..<?n] ! j"
      using Documents_init_inverse(2)[OF assms(1)] by simp
    then have "original_idx passage ! (sorted_idx passage ! j) = j"
      using j p(3) by simp
    then show ?thesis using sj p(5) col j by simp
  qed
  show ?thesis using 1 2 3 4 by blast
qed

lemma Model_forward_is_RNet_forward:
  fixes self :: "('a::{zero,plus,linorder}) Model"
  assumes "Model_forward self question question_char passage passage_char = Inr r"
  shows "\<exists>embedded_question embedded_passage.
           RNet_forward (model_r_net self) question passage embedded_question embedded_passage
           = Inr r"
proof -
  from assms obtain embedded where
    e: "WordEmbedding_forward (model_word_embedding self) [tensor question, tensor passage]
        = Inr embedded"
    by (cases "WordEmbedding_forward (model_word_embedding self) [tensor question, tensor passage]")
       (auto simp: Model_forward_def and_then_def)
  from assms e obtain eq ep where l: "embedded = [eq, ep]"
    by (auto simp: Model_forward_def and_then_def split: list.splits)
  from assms show ?thesis
    unfolding Model_forward_def e l
    by (auto simp: and_then_def split: sum.splits)
qed

section \<open>The question in the passage's order\<close>

lemma select_gather:
  "batch_aligned n dim X \<Longrightarrow> j < length index \<Longrightarrow>
   select_index dim j (gather dim index X) = select_index dim (index ! j) X"
proof (induction dim arbitrary: X)
  case 0
  then show ?case by (cases X) auto
next
  case (Suc d)
  then show ?case by (cases X) (auto simp: list_all_iff)
qed

lemma length_pad_rows_row:
  "sum_list bs = length ds \<Longrightarrow> list_all (\<lambda>n. n \<le> B) bs \<Longrightarrow>
   list_all (\<lambda>r. length r = B) (pad_rows z B ds bs)"
  by (induction bs arbitrary: ds) auto

lemma padded_aligned:
  assumes "wf_packed p"
  shows "batch_aligned (hd (batch_sizes p)) 1 (padded p)"
proof -
  from assms have srt: "sorted (rev (batch_sizes p))" and len: "sum_list (batch_sizes p) = length (data p)"
    by (auto simp: wf_packed_def)
  have "list_all (\<lambda>n. n \<le> hd (batch_sizes p)) (batch_sizes p)"
    unfolding list_all_length using sorted_rev_le_hd[OF srt] by simp
  from length_pad_rows_row[OF len this] show ?thesis
    by (simp add: padded_def list_all_iff)
qed

lemma select_transposed:
  assumes "\<And>r. r \<in> set rs \<Longrightarrow> length r = n" "j < length rs"
  shows "select_index 1 j (Tensor (map Tensor (transpose rs))) = Tensor (rs ! j)"
proof -
  have ne: "rs \<noteq> []" using assms(2) by auto
  have tr: "transpose rs = map (\<lambda>i. map (\<lambda>r. r ! i) rs) [0..<n]"
    using assms(1) by (intro transpose_rect[OF ne]) auto
  have "length (rs ! j) = n" using assms by simp
  then have "map (\<lambda>i. rs ! j ! i) [0..<n] = rs ! j"
    by (intro nth_equalityI) auto
  then show ?thesis using assms(2) by (simp add: tr comp_def)
qed

lemma fold_max_ge: "x \<in> set xs \<Longrightarrow> x \<le> fold max xs (m::nat)"
proof (induction xs arbitrary: m)
  case Nil
  then show ?case by simp
next
  case (Cons a xs)
  have mono: "m \<le> fold max ys m" for ys :: "nat list" and m
    by (induction ys arbitrary: m) (auto intro: order_trans[OF max.cobounded2])
  show ?case
  proof (cases "x = a")
    case True
    then show ?thesis using mono[of "max a m" xs] by simp
  next
    case False
    then show ?thesis using Cons by simp
  qed
qed

lemma mask_original_rows:
  fixes doc :: "('a::{zero,one}) Documents"
  assumes "doc = Documents_init padding seqs"
  shows "\<exists>rs. mask_original doc = Tensor (map Tensor rs) \<and> length rs = length seqs
            \<and> (\<forall>r\<in>set rs. length r = fold max (map length seqs) 0)"
proof -
  let ?L = "fold max (map length seqs) 0"
  let ?rs = "map (\<lambda>s. map Scalar (pad_to ?L (0::'a) (replicate (length s) 1))) seqs"
  have "mask_original doc = Tensor (map Tensor ?rs)"
    using assms by (simp add: Documents_init_def Let_def comp_def)
  moreover have "\<forall>r\<in>set ?rs. length r = ?L"
    using fold_max_ge[of _ "map length seqs" 0] by (auto simp: pad_to_def)
  ultimately show ?thesis by (intro exI[of _ ?rs]) simp
qed

lemma mask_in_sorted_order_select:
  fixes passage question :: "('a::{zero,one}) Documents"
  assumes "passage = Documents_init padp pseqs" "question = Documents_init padq qseqs"
    and "length qseqs = length pseqs"
  shows "\<exists>M. mask_in_sorted_order passage (mask_original question) = Inr M
           \<and> (\<forall>j<length pseqs. select_index 1 j M
                  = select_index 0 (sorted_idx passage ! j) (mask_original question))"
proof -
  note p = Documents_init_perm[OF assms(1)]
  obtain rs where m: "mask_original question = Tensor (map Tensor rs)"
    and l: "length rs = length qseqs"
    and r: "\<forall>r\<in>set rs. length r = fold max (map length qseqs) 0"
    using mask_original_rows[OF assms(2)] by blast
  have al: "batch_aligned (length pseqs) 0 (mask_original question)"
    using m l assms(3) by simp
  let ?rs' = "map (\<lambda>i. rs ! i) (sorted_idx passage)"
  have si: "\<And>i. i \<in> set (sorted_idx passage) \<Longrightarrow> i < length rs"
    using p(1) l assms(3) by simp
  have s: "to_sorted_order passage (mask_original question) 0 = Inr (Tensor (map Tensor ?rs'))"
    using to_sorted_order_gather[OF assms(1) al] si by (simp add: m)
  let ?M = "Tensor (map Tensor (transpose ?rs'))"
  have 1: "mask_in_sorted_order passage (mask_original question) = Inr ?M"
    by (simp only: mask_in_sorted_order_def s and_then_def sum.case transpose01_rows)
  have rl: "\<And>r. r \<in> set ?rs' \<Longrightarrow> length r = fold max (map length qseqs) 0"
    using r si by auto
  have 2: "select_index 1 j ?M = select_index 0 (sorted_idx passage ! j) (mask_original question)"
    if j: "j < length pseqs" for j
  proof -
    have "sorted_idx passage ! j < length rs"
      using si j p(3) nth_mem[of j "sorted_idx passage"] by simp
    then show ?thesis
      using select_transposed[of ?rs' _ j, OF rl] j p(3) by (simp add: m)
  qed
  show ?thesis using 1 2 by blast
qed

lemma question_pad_select:
  fixes question passage :: "('a::{zero,one}) Documents"
  assumes "question = Documents_init padq qseqs" "passage = Documents_init padp pseqs"
    and "length qseqs = length pseqs"
    and "wf_packed question_pack" "hd (batch_sizes question_pack) = length qseqs"
  shows "\<exists>Q. question_pad_in_passage_sorted_order question passage question_pack = Inr Q
           \<and> (\<forall>j<length pseqs.
                 select_index 1 j Q
                   = select_index 1 (original_idx question ! (sorted_idx passage ! j))
                       (padded question_pack)
               \<and> sorted_idx question ! (original_idx question ! (sorted_idx passage ! j))
                   = sorted_idx passage ! j)"
proof -
  let ?n = "length qseqs"
  let ?P = "padded question_pack"
  note q = Documents_init_perm[OF assms(1)] and p = Documents_init_perm[OF assms(2)]
  have a0: "batch_aligned ?n 1 ?P"
    using padded_aligned[OF assms(4)] assms(5) by simp
  let ?G = "gather 1 (original_idx question) ?P"
  have a1: "batch_aligned (length pseqs) 1 ?G"
    using gather_aligned[OF a0, of "original_idx question"] q(5) assms(3) by simp
  let ?Q = "gather 1 (sorted_idx passage) ?G"
  have 1: "question_pad_in_passage_sorted_order question passage question_pack = Inr ?Q"
    using pad_packed_sequence_wf[OF assms(4)] restore_original_order_gather[OF assms(1) a0]
      to_sorted_order_gather[OF assms(2) a1]
    by (simp add: question_pad_in_passage_sorted_order_def and_then_def)
  have 2: "select_index 1 j ?Q
             = select_index 1 (original_idx question ! (sorted_idx passage ! j)) ?P
         \<and> sorted_idx question ! (original_idx question ! (sorted_idx passage ! j))
             = sorted_idx passage ! j"
    if j: "j < length pseqs" for j
  proof -
    have sj: "sorted_idx passage ! j < ?n"
      using p(1,3) j assms(3) nth_mem[of j "sorted_idx passage"] by simp
    have "select_index 1 j ?Q = select_index 1 (sorted_idx passage ! j) ?G"
      using select_gather[OF a1, of j "sorted_idx passage"] j p(3) by simp
    also have "\<dots> = select_index 1 (original_idx question ! (sorted_idx passage ! j)) ?P"
      using select_gather[OF a0, of "sorted_idx passage ! j" "original_idx question"] sj q(5)
      by simp
    finally have A: "select_index 1 j ?Q
        = select_index 1 (original_idx question ! (sorted_idx passage ! j)) ?P" .
    have "map (\<lambda>i. sorted_idx question ! i) (original_idx question) ! (sorted_idx passage ! j)
        = [0..<?n] ! (sorted_idx passage ! j)"
      using Documents_init_inverse(1)[OF assms(1)] by simp
    then have B: "sorted_idx question ! (original_idx question ! (sorted_idx passage ! j))
        = sorted_idx passage ! j"
      using sj q(5) by simp
    show ?thesis using A B by simp
  qed
  show ?thesis using 1 2 by blast
qed

section \<open>Embeddings and the character encoder\<close>

lemma sequence_nth: "sequence rs = Inr vs \<Longrightarrow> k < length rs \<Longrightarrow> rs ! k = Inr (vs ! k)"
proof (induction rs arbitrary: vs k)
  case Nil
  then show ?case by simp
next
  case (Cons r rs)
  then show ?case by (cases k) (auto split: sum.splits)
qed

lemma sequence_map_ex:
  "(\<And>x. x \<in> set xs \<Longrightarrow> \<exists>y. f x = Inr y \<and> P y) \<Longrightarrow>
   \<exists>ys. sequence (map f xs) = Inr ys \<and> length ys = length xs \<and> list_all P ys"
proof (induction xs)
  case Nil
  then show ?case by simp
next
  case (Cons x xs)
  then obtain y where y: "f x = Inr y" "P y" by auto
  from Cons obtain ys where "sequence (map f xs) = Inr ys" "length ys = length xs" "list_all P ys"
    by auto
  with y show ?case by simp
qed

lemma size3_cube:
  assumes "cube b w c t" "0 < b" "0 < w" "0 < c"
  shows "size3 t = Inr (b, w, c)"
proof -
  from assms obtain ws batch where t: "t = ws # batch" by (cases t) (auto simp: cube_def)
  with assms have "length ws = w" and cs: "list_all (\<lambda>cs. length cs = c) ws"
    by (auto simp: cube_def)
  with assms obtain chars words where ws: "ws = chars # words" by (cases ws) auto
  with cs assms have "chars \<noteq> []" "length chars = c" by auto
  then show ?thesis using assms t ws \<open>length ws = w\<close> by (auto simp: size3_def cube_def)
qed

lemma concat_cube:
  assumes "cube b w c t"
  shows "matrix (b * w) c (concat t)"
proof -
  have "list_all (\<lambda>ws. length ws = w \<and> list_all (\<lambda>cs. length cs = c) ws) t \<Longrightarrow>
        length (concat t) = length t * w \<and> list_all (\<lambda>cs. length cs = c) (concat t)"
    by (induction t) auto
  then show ?thesis using assms by (simp add: cube_def matrix_def)
qed

lemma lookups_matrix:
  assumes "list_all (list_all (\<lambda>i. i < length (weight emb))) rows"
  shows "sequence (map (\<lambda>row. sequence (map (Embedding_lookup emb) row)) rows)
         = Inr (map (map (\<lambda>i. weight emb ! i)) rows)"
proof (rule sequence_map_Inr)
  fix row assume "row \<in> set rows"
  then have "list_all (\<lambda>i. i < length (weight emb)) row" using assms by (simp add: list_all_iff)
  then show "sequence (map (Embedding_lookup emb) row) = Inr (map (\<lambda>i. weight emb ! i) row)"
    by (intro sequence_map_Inr) (auto simp: Embedding_lookup_def list_all_iff)
qed

lemma transposed_sample:
  assumes "length row = c" "0 < c" "list_all (\<lambda>i. i < length tab) row"
    and "list_all (\<lambda>r. length r = E) tab"
  shows "matrix E c (transpose (map (\<lambda>i. tab ! i) row))"
proof -
  have ne: "map (\<lambda>i. tab ! i) row \<noteq> []" using assms(1,2) by auto
  have "\<And>r. r \<in> set (map (\<lambda>i. tab ! i) row) \<Longrightarrow> length r = E"
    using assms(3,4) by (auto simp: list_all_iff)
  from transpose_rect[OF ne this] show ?thesis
    using assms(1) by (simp add: matrix_def list_all_iff)
qed

lemma cnn_sample:
  fixes layer :: "('a::linorder) Conv1d"
  assumes "matrix (in_channels layer) c x" "0 < in_channels layer"
    and "0 < kernel_size layer" "kernel_size layer \<le> c" and "0 < out_channels layer"
  shows "\<exists>v. and_then (Conv1d_forward layer x) (\<lambda>y. Max_forward (map (map act) y)) = Inr v
           \<and> length v = out_channels layer"
proof -
  from assms(1,2) obtain channel rest where x: "x = channel # rest"
    by (cases x) (auto simp: matrix_def)
  with assms(1) have lc: "length channel = c" and lx: "length x = in_channels layer"
    by (auto simp: matrix_def)
  let ?y = "map (\<lambda>f. map (\<lambda>p. conv_filter layer f (map (\<lambda>ch. take (kernel_size layer) (drop p ch)) x))
                          [0..<c - kernel_size layer + 1])
                [0..<out_channels layer]"
  have conv: "Conv1d_forward layer x = Inr ?y"
    using lx lc assms(3,4,5) by (simp add: Conv1d_forward_def x)
  have "\<exists>v. Max_forward (map (map act) ?y) = Inr v
           \<and> length v = length (map (map act) ?y) \<and> list_all (\<lambda>_. True) v"
    unfolding Max_forward_def
    by (rule sequence_map_ex) (auto split: list.splits)
  then show ?thesis by (auto simp: conv and_then_def)
qed

lemma cnn_layer_matrix:
  fixes layer :: "('a::linorder) Conv1d"
  assumes "list_all (matrix (in_channels layer) c) samples" "0 < in_channels layer"
    and "0 < kernel_size layer" "kernel_size layer \<le> c" and "0 < out_channels layer"
  shows "\<exists>out. cnn_layer_forward act layer samples = Inr out
           \<and> matrix (length samples) (out_channels layer) out"
proof -
  have "\<exists>ys. sequence (map (\<lambda>x. and_then (Conv1d_forward layer x)
                                  (\<lambda>y. Max_forward (map (map act) y))) samples) = Inr ys
            \<and> length ys = length samples \<and> list_all (\<lambda>v. length v = out_channels layer) ys"
    using assms by (intro sequence_map_ex cnn_sample) (auto simp: list_all_iff)
  then show ?thesis by (auto simp: cnn_layer_forward_def matrix_def)
qed

lemma length_concat_matrix:
  "list_all (\<lambda>r. length r = d) rows \<Longrightarrow> length (concat rows) = length rows * d"
  by (induction rows) auto

lemma cat_matrix:
  assumes "conv_out \<noteq> []" "list_all (matrix n d) conv_out" "0 < n"
  shows "\<exists>merged. (if length conv_out > 1 then Inr (map concat (transpose conv_out))
                    else (case conv_out of
                            [] \<Rightarrow> Inl (IndexError ''list index out of range'')
                          | c # _ \<Rightarrow> Inr c)) = Inr merged
                \<and> matrix n (length conv_out * d) merged"
proof (cases "length conv_out > 1")
  case True
  have rows: "\<And>m. m \<in> set conv_out \<Longrightarrow> length m = n"
    using assms(2) by (auto simp: list_all_iff matrix_def)
  have tr: "transpose conv_out = map (\<lambda>i. map (\<lambda>m. m ! i) conv_out) [0..<n]"
    by (rule transpose_rect[OF assms(1) rows])
  have "length (concat (map (\<lambda>m. m ! i) conv_out)) = length conv_out * d" if "i < n" for i
  proof -
    have "list_all (\<lambda>r. length r = d) (map (\<lambda>m. m ! i) conv_out)"
      using assms(2) that by (auto simp: list_all_iff matrix_def)
    from length_concat_matrix[OF this] show ?thesis by simp
  qed
  then have "matrix n (length conv_out * d) (map concat (transpose conv_out))"
    by (simp add: tr matrix_def list_all_iff)
  then show ?thesis using True by simp
next
  case False
  with assms(1) obtain c where c: "conv_out = [c]"
    by (cases conv_out) (auto simp: not_less Suc_le_eq)
  then show ?thesis using assms(2) by simp
qed

lemma linear_matrix:
  assumes "matrix n (in_features lin) merged"
  shows "\<exists>out. sequence (map (Linear_forward lin) merged) = Inr out
           \<and> matrix n (out_features lin) out"
proof -
  have "\<exists>ys. sequence (map (Linear_forward lin) merged) = Inr ys
            \<and> length ys = length merged \<and> list_all (\<lambda>v. length v = out_features lin) ys"
    using assms by (intro sequence_map_ex) (auto simp: Linear_forward_def matrix_def list_all_iff)
  then show ?thesis using assms by (auto simp: matrix_def)
qed

lemma view3_cube:
  assumes "matrix (b * w) d rows" "0 < b" "0 < w"
  shows "\<exists>out. view3 b w rows = Inr out \<and> cube b w d out"
proof -
  let ?out = "map (\<lambda>i. take w (drop (i * w) rows)) [0..<b]"
  have l: "length rows = b * w" and r: "list_all (\<lambda>r. length r = d) rows"
    using assms(1) by (auto simp: matrix_def)
  have v: "view3 b w rows = Inr ?out"
    using assms(2,3) l by (simp add: view3_def)
  have "length (take w (drop (i * w) rows)) = w" if "i < b" for i
  proof -
    have "Suc i * w \<le> b * w" using that by (intro mult_le_mono1) simp
    then show ?thesis using l by simp
  qed
  moreover have "list_all (\<lambda>cs. length cs = d) (take w (drop (i * w) rows))" for i
    using r by (auto simp: list_all_iff dest!: in_set_takeD in_set_dropD)
  ultimately have "cube b w d ?out"
    by (simp add: cube_def list_all_iff)
  with v show ?thesis by blast
qed

lemma init_fields:
  fixes self :: "('a::zero) CharLevelWordEmbeddingCnn"
  assumes "CharLevelWordEmbeddingCnn_init initial_table initial_filters initial_units
             char_embedding_size char_num num_filters ngram_filter_sizes output_dim_arg
             activation_arg embedding_weights padding_idx requires_grad = Inr self"
  shows "length (cnn_layers self) = length ngram_filter_sizes"
    and "list_all (\<lambda>layer. in_channels layer = embedding_size self
                          \<and> out_channels layer = num_filters
                          \<and> kernel_size layer \<in> set ngram_filter_sizes) (cnn_layers self)"
    and "activation self = activation_arg"
    and "output_dim self
         = (case output_dim_arg of
              None \<Rightarrow> length ngram_filter_sizes * num_filters
            | Some d \<Rightarrow> if d \<noteq> 0 then d else length ngram_filter_sizes * num_filters)"
    and "case output_layer self of
           None \<Rightarrow> output_dim self = length ngram_filter_sizes * num_filters
         | Some lin \<Rightarrow> in_features lin = length ngram_filter_sizes * num_filters
                      \<and> out_features lin = output_dim self"
proof -
  let ?n = "case embedding_weights of Some w \<Rightarrow> fst (table_size w) | None \<Rightarrow> char_num"
  let ?E = "case embedding_weights of Some w \<Rightarrow> snd (table_size w) | None \<Rightarrow> char_embedding_size"
  obtain e where e: "Embedding_init initial_table ?n ?E padding_idx = Inr e"
    using assms
    by (cases "Embedding_init initial_table ?n ?E padding_idx")
       (auto simp: CharLevelWordEmbeddingCnn_init_def and_then_def split_def split: option.splits)
  have m: "embedding_size self = ?E"
    "cnn_layers self = map (\<lambda>(i, filter_size).
                             \<lparr> in_channels = ?E, out_channels = num_filters,
                               kernel_size = filter_size, conv_filter = initial_filters i \<rparr>)
                          (enumerate 0 ngram_filter_sizes)"
    "activation self = activation_arg"
    "output_layer self =
       (if (case output_dim_arg of None \<Rightarrow> 0 | Some d \<Rightarrow> d) \<noteq> 0
        then Some \<lparr> in_features = length ngram_filter_sizes * num_filters,
                    out_features = (case output_dim_arg of None \<Rightarrow> 0 | Some d \<Rightarrow> d),
                    out_unit = initial_units \<rparr>
        else None)"
    "output_dim self = (if (case output_dim_arg of None \<Rightarrow> 0 | Some d \<Rightarrow> d) \<noteq> 0
                        then (case output_dim_arg of None \<Rightarrow> 0 | Some d \<Rightarrow> d)
                        else length ngram_filter_sizes * num_filters)"
    using assms e
    by (auto simp: CharLevelWordEmbeddingCnn_init_def and_then_def split_def Let_def
        split: option.splits)
  show "length (cnn_layers self) = length ngram_filter_sizes" by (simp add: m)
  show "list_all (\<lambda>layer. in_channels layer = embedding_size self
                          \<and> out_channels layer = num_filters
                          \<and> kernel_size layer \<in> set ngram_filter_sizes) (cnn_layers self)"
    by (auto simp: m list_all_iff in_set_enumerate_eq)
  show "activation self = activation_arg" by (simp add: m)
  show "output_dim self
         = (case output_dim_arg of
              None \<Rightarrow> length ngram_filter_sizes * num_filters
            | Some d \<Rightarrow> if d \<noteq> 0 then d else length ngram_filter_sizes * num_filters)"
    by (simp add: m split: option.splits)
  show "case output_layer self of
           None \<Rightarrow> output_dim self = length ngram_filter_sizes * num_filters
         | Some lin \<Rightarrow> in_features lin = length ngram_filter_sizes * num_filters
                      \<and> out_features lin = output_dim self"
    by (simp add: m split: option.splits)
qed

lemma forward_shape_unmasked:
  fixes self :: "('a::{zero,linorder}) CharLevelWordEmbeddingCnn"
  assumes init: "CharLevelWordEmbeddingCnn_init initial_table initial_filters initial_units
             char_embedding_size char_num num_filters ngram_filter_sizes output_dim_arg
             activation_arg embedding_weights padding_idx requires_grad = Inr self"
    and cube: "cube b w c t" and b: "0 < b" and w: "0 < w"
    and idx: "list_all (list_all (list_all (\<lambda>i. i < length (weight (embed_char self))))) t"
    and tab: "list_all (\<lambda>row. length row = embedding_size self) (weight (embed_char self))"
    and E: "0 < embedding_size self"
    and ne: "ngram_filter_sizes \<noteq> []"
    and fit: "list_all (\<lambda>k. 0 < k \<and> k \<le> c) ngram_filter_sizes"
    and nf: "0 < num_filters"
  shows "\<exists>out. CharLevelWordEmbeddingCnn_forward self t None = Inr out
           \<and> cube b w (output_dim self) out"
proof -
  note f = init_fields[OF init]
  let ?W = "weight (embed_char self)"
  let ?N = "b * w"
  from ne fit have c: "0 < c" by (cases ngram_filter_sizes) auto
  have rows: "matrix ?N c (concat t)" by (rule concat_cube[OF cube])
  have ridx: "list_all (list_all (\<lambda>i. i < length ?W)) (concat t)"
    using idx by (auto simp: list_all_iff)
  let ?X = "map transpose (map (map (\<lambda>i. ?W ! i)) (concat t))"
  have emb: "embedded_characters self t None = Inr ((b, w, c), ?X)"
    by (simp add: embedded_characters_def size3_cube[OF cube b w c] lookups_matrix[OF ridx]
        and_then_def)
  have X: "list_all (matrix (embedding_size self) c) ?X" "length ?X = ?N"
  proof -
    have "matrix (embedding_size self) c (transpose (map (\<lambda>i. ?W ! i) row))"
      if "row \<in> set (concat t)" for row
    proof -
      have "length row = c" "list_all (\<lambda>i. i < length ?W) row"
        using that rows ridx by (auto simp: matrix_def list_all_iff)
      then show ?thesis using c tab by (intro transposed_sample)
    qed
    then show "list_all (matrix (embedding_size self) c) ?X"
      by (simp add: list_all_iff del: set_concat)
    show "length ?X = ?N" using rows by (simp add: matrix_def)
  qed
  have layers: "\<exists>ys. sequence (map (\<lambda>layer. cnn_layer_forward (activation self) layer ?X)
                                    (cnn_layers self)) = Inr ys
                  \<and> length ys = length (cnn_layers self)
                  \<and> list_all (matrix ?N num_filters) ys"
  proof (rule sequence_map_ex)
    fix layer assume l: "layer \<in> set (cnn_layers self)"
    then have lf: "in_channels layer = embedding_size self" "out_channels layer = num_filters"
      "kernel_size layer \<in> set ngram_filter_sizes"
      using f(2) by (auto simp: list_all_iff)
    then have k: "0 < kernel_size layer" "kernel_size layer \<le> c"
      using fit by (auto simp: list_all_iff)
    from cnn_layer_matrix[of layer c ?X "activation self"] X lf E k nf
    show "\<exists>y. cnn_layer_forward (activation self) layer ?X = Inr y \<and> matrix ?N num_filters y"
      by auto
  qed
  then obtain conv_out where
    co: "sequence (map (\<lambda>layer. cnn_layer_forward (activation self) layer ?X) (cnn_layers self))
         = Inr conv_out"
    and col: "length conv_out = length ngram_filter_sizes"
    and com: "list_all (matrix ?N num_filters) conv_out"
    using f(1) by auto
  have cone: "conv_out \<noteq> []" using col ne by auto
  have N: "0 < ?N" using b w by simp
  from cat_matrix[OF cone com N] obtain merged where
    cat: "(if length conv_out > 1 then Inr (map concat (transpose conv_out))
           else (case conv_out of
                   [] \<Rightarrow> Inl (IndexError ''list index out of range'')
                 | c # _ \<Rightarrow> Inr c)) = Inr merged"
    and om: "matrix ?N (length ngram_filter_sizes * num_filters) merged"
    using col by auto
  have "\<exists>projected. (case output_layer self of
                 Some lin \<Rightarrow> sequence (map (Linear_forward lin) merged)
               | None \<Rightarrow> Inr merged) = Inr projected \<and> matrix ?N (output_dim self) projected"
  proof (cases "output_layer self")
    case None
    then show ?thesis using om f(5) by simp
  next
    case (Some lin)
    then have "in_features lin = length ngram_filter_sizes * num_filters"
      "out_features lin = output_dim self"
      using f(5) by simp_all
    with linear_matrix[of ?N lin merged] om Some show ?thesis by simp
  qed
  then obtain projected where
    lin: "(case output_layer self of
                 Some lin \<Rightarrow> sequence (map (Linear_forward lin) merged)
               | None \<Rightarrow> Inr merged) = Inr projected"
    and om': "matrix ?N (output_dim self) projected"
    by blast
  from view3_cube[OF om' b w] obtain out where
    v: "view3 b w projected = Inr out" and oc: "cube b w (output_dim self) out"
    by blast
  have "CharLevelWordEmbeddingCnn_forward self t None = Inr out"
    unfolding CharLevelWordEmbeddingCnn_forward_def emb and_then_def
    by (simp only: sum.case prod.case co cat lin v)
  with oc show ?thesis by blast
qed

section \<open>The encoders of the instance are built by the constructor\<close>

lemma example_char_cnn_init:
  "CharLevelWordEmbeddingCnn_init example_initial_table example_initial_filters
     example_initial_units 1 3 2 [2] None relu None (Some 1) True = Inr example_char_cnn"
  by (simp add: CharLevelWordEmbeddingCnn_init_def Embedding_init_def and_then_def
      example_char_cnn_def example_initial_table_def upt_conv_Cons)

lemma example_char_cnn_projected_init:
  "CharLevelWordEmbeddingCnn_init example_initial_table example_initial_filters
     example_initial_units 7 100 2 [2, 3] (Some 3) relu (Some [[1, 2], [3, 4], [5, 6]])
     (Some 1) False
   = Inr example_char_cnn_projected"
  by (simp add: CharLevelWordEmbeddingCnn_init_def Embedding_init_def and_then_def
      example_char_cnn_projected_def table_size_def)

lemma example_char_cnn_default_init:
  "CharLevelWordEmbeddingCnn_init example_initial_table example_initial_filters
     example_initial_units 1 3 2 [5] None relu None (Some 1) True = Inr example_char_cnn_default"
  by (simp add: CharLevelWordEmbeddingCnn_init_def Embedding_init_def and_then_def
      example_char_cnn_default_def example_initial_table_def upt_conv_Cons)

section \<open>The pointer network\<close>

text \<open>
  The forward pass of the pointer network (lines 233 to 246) for every pooling and every
  cell: the question is pooled with the learned query \<open>V_q\<close> into a summary; the first
  result is the key-score tensor of pooling the passage conditioned on that summary; the
  pooled passage goes through the cell, whose hidden state is the summary expanded to the
  number of layers; and the second result is the key-score tensor of pooling the passage
  again, conditioned on the cell's output. Both score tensors are returned as the pooling
  yields them, so their layout and their scale are the pooling's. The pass raises only
  when the summary cannot be expanded to the number of layers.
\<close>

lemma PointerNetwork_forward_flow:
  fixes self :: "'a PointerNetwork"
  assumes "expand_first (num_layers self)
             (fst (question_pooling self question_pad (V_q self) question_mask True))
           = Inr hidden_layers"
  shows "PointerNetwork_forward self question_pad question_mask passage_pad passage_mask
       = Inr (snd (passage_pooling self passage_pad
                     (fst (question_pooling self question_pad (V_q self) question_mask True))
                     passage_mask False),
              snd (passage_pooling self passage_pad
                     (unsqueeze_first (fst (cell self
                        (squeeze_first (fst (passage_pooling self passage_pad
                           (fst (question_pooling self question_pad (V_q self) question_mask True))
                           passage_mask False)))
                        hidden_layers)))
                     passage_mask False))"
  using assms by (simp add: PointerNetwork_forward_def Let_def split_def and_then_def)

lemma PointerNetwork_forward_raises:
  fixes self :: "'a PointerNetwork"
  assumes "expand_first (num_layers self)
             (fst (question_pooling self question_pad (V_q self) question_mask True))
           = Inl e"
  shows "PointerNetwork_forward self question_pad question_mask passage_pad passage_mask = Inl e"
  using assms by (simp add: PointerNetwork_forward_def Let_def split_def and_then_def)
section \<open>Claims\<close>

text \<open>
  C1. Every forward pass of \<open>RNet\<close> that returns, returns a pair (begin, end). When the
  pointer network's two outputs, which are in the passage's sorted order, have passage
  length \<open>L\<close> rows of one score per example, each returned tensor has the shape
  (batch, \<open>L\<close>) and is in the caller's batch order: row \<open>i\<close> of the result is the column
  of the sorted-order output selected by the passage's restore permutation, so that the
  scores of the example at sorted position \<open>j\<close> are returned at that example's original
  index. Whatever a forward pass of \<open>Model\<close> returns is what the forward pass of its
  \<open>RNet\<close> returns on the embedded question and passage.
\<close>

theorem RNet_forward_original_order:
  fixes passage :: "('a::{zero,one,plus,linorder}) Documents"
  assumes "passage = Documents_init padding seqs"
    and "RNet_sorted_logits self question passage embedded_question embedded_passage
         = Inr (begin, end)"
    and "0 < L"
    and "has_shape [L, length seqs] begin"
    and "has_shape [L, length seqs] end"
  shows "(\<exists>b e. RNet_forward self question passage embedded_question embedded_passage = Inr (b, e)
           \<and> has_shape [length seqs, L] b \<and> has_shape [length seqs, L] e
           \<and> b = Tensor (map (\<lambda>i. select_index 1 i begin) (original_idx passage))
           \<and> e = Tensor (map (\<lambda>i. select_index 1 i end) (original_idx passage))
           \<and> (\<forall>j<length seqs.
                 select_index 0 (sorted_idx passage ! j) b = select_index 1 j begin
               \<and> select_index 0 (sorted_idx passage ! j) e = select_index 1 j end))
       \<and> (\<forall>model question_char passage_char r.
             Model_forward model question question_char passage passage_char = Inr r
             \<longrightarrow> (\<exists>embedded_question embedded_passage.
                    RNet_forward (model_r_net model) question passage
                      embedded_question embedded_passage = Inr r))"
proof -
  obtain b where b: "and_then (transpose01 begin) (\<lambda>u. restore_original_order passage u 0) = Inr b"
    "has_shape [length seqs, L] b"
    "b = Tensor (map (\<lambda>i. select_index 1 i begin) (original_idx passage))"
    "\<forall>j<length seqs. select_index 0 (sorted_idx passage ! j) b = select_index 1 j begin"
    using restored_logits[OF assms(1,4,3)] by blast
  obtain e where e: "and_then (transpose01 end) (\<lambda>u. restore_original_order passage u 0) = Inr e"
    "has_shape [length seqs, L] e"
    "e = Tensor (map (\<lambda>i. select_index 1 i end) (original_idx passage))"
    "\<forall>j<length seqs. select_index 0 (sorted_idx passage ! j) e = select_index 1 j end"
    using restored_logits[OF assms(1,5,3)] by blast
  have "RNet_forward self question passage embedded_question embedded_passage = Inr (b, e)"
    unfolding RNet_forward_def assms(2) using b(1) e(1) by (simp add: and_then_def)
  then have "\<exists>b e. RNet_forward self question passage embedded_question embedded_passage = Inr (b, e)
           \<and> has_shape [length seqs, L] b \<and> has_shape [length seqs, L] e
           \<and> b = Tensor (map (\<lambda>i. select_index 1 i begin) (original_idx passage))
           \<and> e = Tensor (map (\<lambda>i. select_index 1 i end) (original_idx passage))
           \<and> (\<forall>j<length seqs.
                 select_index 0 (sorted_idx passage ! j) b = select_index 1 j begin
               \<and> select_index 0 (sorted_idx passage ! j) e = select_index 1 j end)"
    using b(2,3,4) e(2,3,4) by blast
  then show ?thesis using Model_forward_is_RNet_forward by blast
qed


lemma example_sorted_logits:
  "RNet_sorted_logits (example_net False) example_question example_passage
         (example_embed (tensor example_question)) (example_embed (tensor example_passage))
   = Inr (Tensor [Tensor [Scalar 135, Scalar 55], Tensor [Scalar 175, Scalar 95],
                  Tensor [Scalar 215, Scalar 0], Tensor [Scalar 255, Scalar 0]],
          Tensor [Tensor [Scalar 960, Scalar 880], Tensor [Scalar 1000, Scalar 920],
                  Tensor [Scalar 1040, Scalar 0], Tensor [Scalar 1080, Scalar 0]])"
  by code_simp

theorem RNet_forward_original_order_witness:
  "RNet_sorted_logits (example_net False) example_question example_passage
         (example_embed (tensor example_question)) (example_embed (tensor example_passage))
   = Inr (Tensor [Tensor [Scalar 135, Scalar 55], Tensor [Scalar 175, Scalar 95],
                  Tensor [Scalar 215, Scalar 0], Tensor [Scalar 255, Scalar 0]],
          Tensor [Tensor [Scalar 960, Scalar 880], Tensor [Scalar 1000, Scalar 920],
                  Tensor [Scalar 1040, Scalar 0], Tensor [Scalar 1080, Scalar 0]])
   \<and> sorted_idx example_passage = [1, 0]
   \<and> RNet_forward (example_net False) example_question example_passage
         (example_embed (tensor example_question)) (example_embed (tensor example_passage))
   = Inr (Tensor [Tensor [Scalar 55, Scalar 95, Scalar 0, Scalar 0],
                  Tensor [Scalar 135, Scalar 175, Scalar 215, Scalar 255]],
          Tensor [Tensor [Scalar 880, Scalar 920, Scalar 0, Scalar 0],
                  Tensor [Scalar 960, Scalar 1000, Scalar 1040, Scalar 1080]])
   \<and> Model_forward example_model example_model_question example_model_question_char
         example_model_passage example_model_passage_char
   = Inr (Tensor [Tensor [Scalar 666, Scalar 910, Scalar 0, Scalar 0],
                  Tensor [Scalar 670, Scalar 666, Scalar 666, Scalar 910]],
          Tensor [Tensor [Scalar 2368, Scalar 2612, Scalar 0, Scalar 0],
                  Tensor [Scalar 2372, Scalar 2368, Scalar 2368, Scalar 2612]])"
proof -
  have m: "Model_forward example_model example_model_question example_model_question_char
         example_model_passage example_model_passage_char
   = Inr (Tensor [Tensor [Scalar 666, Scalar 910, Scalar 0, Scalar 0],
                  Tensor [Scalar 670, Scalar 666, Scalar 666, Scalar 910]],
          Tensor [Tensor [Scalar 2368, Scalar 2612, Scalar 0, Scalar 0],
                  Tensor [Scalar 2372, Scalar 2368, Scalar 2368, Scalar 2612]])"
    by code_simp
  let ?begin = "Tensor [Tensor [Scalar (135::int), Scalar 55], Tensor [Scalar 175, Scalar 95],
                  Tensor [Scalar 215, Scalar 0], Tensor [Scalar 255, Scalar 0]]"
  let ?end = "Tensor [Tensor [Scalar (960::int), Scalar 880], Tensor [Scalar 1000, Scalar 920],
                  Tensor [Scalar 1040, Scalar 0], Tensor [Scalar 1080, Scalar 0]]"
  have p: "example_passage = Documents_init 0 [[10, 20], [30, 40, 50, 60]]"
    by (simp add: example_passage_def)
  have s: "sorted_idx example_passage = [1, 0]"
    by code_simp
  have o: "original_idx example_passage = [1, 0]"
    by code_simp
  have sb: "has_shape [4, length [[10, 20], [30, 40, 50, 60::nat]]] ?begin"
    and se: "has_shape [4, length [[10, 20], [30, 40, 50, 60::nat]]] ?end"
    by simp_all
  obtain b e where f: "RNet_forward (example_net False) example_question example_passage
         (example_embed (tensor example_question)) (example_embed (tensor example_passage)) = Inr (b, e)"
    and b: "b = Tensor (map (\<lambda>i. select_index 1 i ?begin) (original_idx example_passage))"
    and e: "e = Tensor (map (\<lambda>i. select_index 1 i ?end) (original_idx example_passage))"
    using RNet_forward_original_order[OF p example_sorted_logits _ sb se] by auto
  show ?thesis
    using example_sorted_logits s f b e m by (simp add: o)
qed

text \<open>
  C2. For every batch, every axis \<open>dim\<close> and every tensor \<open>X\<close> aligned to the batch
  on that axis, converting \<open>X\<close> to sorted order and restoring the original order
  returns \<open>X\<close> exactly, and so does restoring first and sorting afterwards: the two
  operations are mutually inverse permutations of the batch axis, and neither raises.
\<close>

theorem restore_to_sorted_roundtrip:
  fixes doc :: "('a::{zero,one}) Documents"
  assumes "doc = Documents_init padding seqs"
    and "batch_aligned (length seqs) dim X"
  shows "and_then (to_sorted_order doc X dim) (\<lambda>Y. restore_original_order doc Y dim) = Inr X
       \<and> and_then (restore_original_order doc X dim) (\<lambda>Y. to_sorted_order doc Y dim) = Inr X"
proof -
  note p = Documents_init_perm[OF assms(1)]
  have a1: "batch_aligned (length seqs) dim (gather dim (sorted_idx doc) X)"
    using gather_aligned[OF assms(2), of "sorted_idx doc"] p(3) by simp
  have a2: "batch_aligned (length seqs) dim (gather dim (original_idx doc) X)"
    using gather_aligned[OF assms(2), of "original_idx doc"] p(5) by simp
  have "and_then (to_sorted_order doc X dim) (\<lambda>Y. restore_original_order doc Y dim) = Inr X"
    using to_sorted_order_gather[OF assms] restore_original_order_gather[OF assms(1) a1]
      gather_restore_sorted[OF assms]
    by (simp add: and_then_def)
  moreover
  have "and_then (restore_original_order doc X dim) (\<lambda>Y. to_sorted_order doc Y dim) = Inr X"
    using restore_original_order_gather[OF assms] to_sorted_order_gather[OF assms(1) a2]
      gather_sorted_restore[OF assms]
    by (simp add: and_then_def)
  ultimately show ?thesis by simp
qed

theorem restore_to_sorted_roundtrip_witness:
  "batch_aligned (length [[1,2],[3,4,5],[6::nat]]) 1
     (Tensor [Tensor [Scalar (10::int), Scalar 20, Scalar 30], Tensor [Scalar 40, Scalar 50, Scalar 60]])
   \<and> and_then (to_sorted_order (Documents_init 0 [[1,2],[3,4,5],[6]] :: int Documents)
         (Tensor [Tensor [Scalar (10::int), Scalar 20, Scalar 30], Tensor [Scalar 40, Scalar 50, Scalar 60]]) 1)
        (\<lambda>Y. restore_original_order (Documents_init 0 [[1,2],[3,4,5],[6]] :: int Documents) Y 1)
       = Inr (Tensor [Tensor [Scalar 10, Scalar 20, Scalar 30], Tensor [Scalar 40, Scalar 50, Scalar 60]])
   \<and> to_sorted_order (Documents_init 0 [[1,2],[3,4,5],[6]] :: int Documents)
         (Tensor [Tensor [Scalar (10::int), Scalar 20, Scalar 30], Tensor [Scalar 40, Scalar 50, Scalar 60]]) 1
       = Inr (Tensor [Tensor [Scalar 20, Scalar 10, Scalar 30], Tensor [Scalar 50, Scalar 40, Scalar 60]])"
proof -
  have a: "batch_aligned (length [[1,2],[3,4,5],[6::nat]]) 1
     (Tensor [Tensor [Scalar (10::int), Scalar 20, Scalar 30], Tensor [Scalar 40, Scalar 50, Scalar 60]])"
    by simp
  have s: "to_sorted_order (Documents_init 0 [[1,2],[3,4,5],[6]] :: int Documents)
         (Tensor [Tensor [Scalar (10::int), Scalar 20, Scalar 30], Tensor [Scalar 40, Scalar 50, Scalar 60]]) 1
       = Inr (Tensor [Tensor [Scalar 20, Scalar 10, Scalar 30], Tensor [Scalar 50, Scalar 40, Scalar 60]])"
    by code_simp
  show ?thesis
    using a s restore_to_sorted_roundtrip[of "Documents_init 0 [[1,2],[3,4,5],[6]] :: int Documents"
        0 "[[1,2],[3,4,5],[6]]" 1, OF refl a]
    by simp
qed




text \<open>Two more evaluations: operands of different lengths, and operands of equal
  lengths whose entries, of sizes 2 and 3, cannot be broadcast.\<close>

lemma pack_residual_mismatch_example:
  "pack_residual
     \<lparr> data = [Scalar (1::int), Scalar 2, Scalar 3, Scalar 4, Scalar 5], batch_sizes = [2, 2, 1] \<rparr>
     \<lparr> data = [Scalar 10, Scalar 20, Scalar 30, Scalar 40], batch_sizes = [2, 1, 1] \<rparr>
   = Inl (ValueError ''different lengths'')"
  by code_simp

lemma pack_residual_size_error_example:
  "pack_residual
     \<lparr> data = [Tensor [Scalar (1::int), Scalar 2], Tensor [Scalar 3, Scalar 4]], batch_sizes = [1, 1] \<rparr>
     \<lparr> data = [Tensor [Scalar 10, Scalar 20, Scalar 30], Tensor [Scalar 40, Scalar 50, Scalar 60]],
        batch_sizes = [1, 1] \<rparr>
   = Inl (RuntimeError ''The size of tensor a must match the size of tensor b'')"
  by code_simp
text \<open>
  C5. In the forward pass of \<open>RNet\<close>, before pair encoding, the question states and the
  question mask are both brought into the passage's sorted order: the states, which the
  sentence encoder returns in the question's sorted order, by \<open>restore_original_order\<close>
  of the question followed by \<open>to_sorted_order\<close> of the passage (on the batch axis 1),
  and the mask, which is stored in original order, by \<open>to_sorted_order\<close> of the passage
  (on the batch axis 0, before the transposition). At every batch position \<open>j\<close> the
  states and the mask are those of the same example, the one the passage's permutation
  puts at position \<open>j\<close>. The forward pass hands exactly these two tensors, in this
  order, to the pair encoder (with the packed passage) and to the pointer network: its
  result is the result of the remaining steps on the pair encoder's output for them.
\<close>

theorem question_states_and_mask_in_passage_order:
  fixes question passage :: "('a::{zero,one,plus}) Documents"
  assumes "question = Documents_init padq qseqs" and "passage = Documents_init padp pseqs"
    and "length qseqs = length pseqs"
    and "RNet_sentence_encoding self embedded_passage embedded_question passage question
         = Inr (passage_pack, question_pack)"
    and "wf_packed question_pack" and "hd (batch_sizes question_pack) = length qseqs"
  shows "\<exists>Q_sorted Q_original Q M_sorted M.
      pad_packed_sequence question_pack = Inr (Q_sorted, packed_lengths question_pack)
    \<and> restore_original_order question Q_sorted 1 = Inr Q_original
    \<and> to_sorted_order passage Q_original 1 = Inr Q
    \<and> to_sorted_order passage (mask_original question) 0 = Inr M_sorted
    \<and> transpose01 M_sorted = Inr M
    \<and> question_pad_in_passage_sorted_order question passage question_pack = Inr Q
    \<and> mask_in_sorted_order passage (mask_original question) = Inr M
    \<and> (\<forall>j<length pseqs.
          select_index 1 j Q
            = select_index 1 (original_idx question ! (sorted_idx passage ! j)) (padded question_pack)
        \<and> sorted_idx question ! (original_idx question ! (sorted_idx passage ! j))
            = sorted_idx passage ! j
        \<and> select_index 1 j M
            = select_index 0 (sorted_idx passage ! j) (mask_original question))
    \<and> RNet_forward self question passage embedded_question embedded_passage
        = and_then (if residual self
                    then pack_residual (fst (pair_encoder self (passage_pack, Q, M))) passage_pack
                    else Inr (fst (pair_encoder self (passage_pack, Q, M)))) (\<lambda>paired_passage_pack.
          and_then (RNet_self_match_encode self paired_passage_pack passage) (\<lambda>self_matched.
          and_then (if residual self then pack_residual paired_passage_pack self_matched
                    else Inr self_matched) (\<lambda>self_matched_passage_pack.
          and_then (pad_packed_sequence self_matched_passage_pack) (\<lambda>(passage_pad, _).
          and_then (mask_in_sorted_order passage (mask_original passage)) (\<lambda>passage_mask.
          and_then (PointerNetwork_forward (pointer_output self) Q M passage_pad passage_mask)
            (\<lambda>(begin, end).
          and_then (and_then (transpose01 begin) (\<lambda>t. restore_original_order passage t 0))
            (\<lambda>begin_original.
          and_then (and_then (transpose01 end) (\<lambda>t. restore_original_order passage t 0))
            (\<lambda>end_original. Inr (begin_original, end_original)))))))))"
proof -
  obtain Q where Q: "question_pad_in_passage_sorted_order question passage question_pack = Inr Q"
    and Qs: "\<forall>j<length pseqs.
                 select_index 1 j Q
                   = select_index 1 (original_idx question ! (sorted_idx passage ! j))
                       (padded question_pack)
               \<and> sorted_idx question ! (original_idx question ! (sorted_idx passage ! j))
                   = sorted_idx passage ! j"
    using question_pad_select[OF assms(1,2,3,5,6)] by blast
  obtain M where M: "mask_in_sorted_order passage (mask_original question) = Inr M"
    and Ms: "\<forall>j<length pseqs. select_index 1 j M
                  = select_index 0 (sorted_idx passage ! j) (mask_original question)"
    using mask_in_sorted_order_select[OF assms(2,1,3)] by blast
  note pad = pad_packed_sequence_wf[OF assms(5)]
  obtain Q_original where
    Qo: "restore_original_order question (padded question_pack) 1 = Inr Q_original"
    and Qp: "to_sorted_order passage Q_original 1 = Inr Q"
    using Q unfolding question_pad_in_passage_sorted_order_def pad
    by (auto simp: and_then_def split: sum.splits)
  obtain M_sorted where
    Mo: "to_sorted_order passage (mask_original question) 0 = Inr M_sorted"
    and Mt: "transpose01 M_sorted = Inr M"
    using M unfolding mask_in_sorted_order_def
    by (auto simp: and_then_def split: sum.splits)
  have a: "and_then (and_then m f) g = and_then m (\<lambda>x. and_then (f x) g)"
    for m :: "error + 'x" and f :: "'x \<Rightarrow> error + 'y" and g :: "'y \<Rightarrow> error + 'z"
    by (cases m) (simp_all add: and_then_def)
  have i: "and_then (Inr v) f = f v" for v :: 'x and f :: "'x \<Rightarrow> error + 'y"
    by (simp add: and_then_def)
  have fw: "RNet_forward self question passage embedded_question embedded_passage
        = and_then (if residual self
                    then pack_residual (fst (pair_encoder self (passage_pack, Q, M))) passage_pack
                    else Inr (fst (pair_encoder self (passage_pack, Q, M)))) (\<lambda>paired_passage_pack.
          and_then (RNet_self_match_encode self paired_passage_pack passage) (\<lambda>self_matched.
          and_then (if residual self then pack_residual paired_passage_pack self_matched
                    else Inr self_matched) (\<lambda>self_matched_passage_pack.
          and_then (pad_packed_sequence self_matched_passage_pack) (\<lambda>(passage_pad, _).
          and_then (mask_in_sorted_order passage (mask_original passage)) (\<lambda>passage_mask.
          and_then (PointerNetwork_forward (pointer_output self) Q M passage_pad passage_mask)
            (\<lambda>(begin, end).
          and_then (and_then (transpose01 begin) (\<lambda>t. restore_original_order passage t 0))
            (\<lambda>begin_original.
          and_then (and_then (transpose01 end) (\<lambda>t. restore_original_order passage t 0))
            (\<lambda>end_original. Inr (begin_original, end_original)))))))))"
    unfolding RNet_forward_def RNet_sorted_logits_def assms(4) Q M i prod.case
      RNet_passage_representation_def RNet_pair_encode_def PairEncoder_forward_def Let_def
    by (simp only: a split_def fst_conv snd_conv)
  show ?thesis
    using pad Qo Qp Mo Mt Q M Qs Ms fw by blast
qed

lemma example_keyed_sentence_encoding:
  "RNet_sentence_encoding example_net_keyed
         (example_embed (tensor example_passage)) (example_embed (tensor example_question))
         example_passage example_question
   = Inr (example_passage_pack, example_question_pack)"
  by code_simp

text \<open>
  On the instance whose pair encoder reads its keys, the passage is sorted into the
  order \<open>[1, 0]\<close> and the question stays in the order \<open>[0, 1]\<close>. Batch position 0 of the
  question states and of the question mask holds the second question, \<open>[4, 5]\<close>, so the
  pair encoder adds 9 to the four positions of the second passage and 6, the sum of the
  first question \<open>[1, 2, 3]\<close>, to the two positions of the first passage.
\<close>

theorem question_states_and_mask_in_passage_order_witness:
  "RNet_sentence_encoding example_net_keyed
         (example_embed (tensor example_passage)) (example_embed (tensor example_question))
         example_passage example_question
     = Inr (example_passage_pack, example_question_pack)
   \<and> wf_packed example_question_pack
   \<and> sorted_idx example_question = [0, 1] \<and> sorted_idx example_passage = [1, 0]
   \<and> question_pad_in_passage_sorted_order example_question example_passage example_question_pack
     = Inr example_question_pad
   \<and> mask_in_sorted_order example_passage (mask_original example_question)
     = Inr example_question_mask
   \<and> select_index 1 0 example_question_pad
     = select_index 1 (original_idx example_question ! (sorted_idx example_passage ! 0))
         (padded example_question_pack)
   \<and> select_index 1 0 example_question_pad = Tensor [Tensor [Scalar 4], Tensor [Scalar 5], Tensor [Scalar 0]]
   \<and> select_index 1 0 example_question_mask
     = select_index 0 (sorted_idx example_passage ! 0) (mask_original example_question)
   \<and> select_index 1 0 example_question_mask = Tensor [Scalar 1, Scalar 1, Scalar 0]
   \<and> fst (pair_encoder example_net_keyed
             (example_passage_pack, example_question_pad, example_question_mask))
     = \<lparr> data = [Tensor [Scalar 39], Tensor [Scalar 16], Tensor [Scalar 49], Tensor [Scalar 26],
                  Tensor [Scalar 59], Tensor [Scalar 69]],
         batch_sizes = [2, 2, 1, 1] \<rparr>
   \<and> RNet_forward example_net_keyed example_question example_passage
         (example_embed (tensor example_question)) (example_embed (tensor example_passage))
     = Inr (Tensor [Tensor [Scalar 47, Scalar 67, Scalar 0, Scalar 0],
                    Tensor [Scalar 93, Scalar 113, Scalar 133, Scalar 153]],
            Tensor [Tensor [Scalar 548, Scalar 568, Scalar 0, Scalar 0],
                    Tensor [Scalar 594, Scalar 614, Scalar 634, Scalar 654]])"
proof -
  have q: "example_question = Documents_init 0 [[1, 2, 3], [4, 5]]"
    and p: "example_passage = Documents_init 0 [[10, 20], [30, 40, 50, 60]]"
    by (simp_all add: example_question_def example_passage_def)
  have n: "length [[1, 2, 3], [4, 5::nat]] = length [[10, 20], [30, 40, 50, 60::nat]]"
    by simp
  have w: "wf_packed example_question_pack"
    by (simp add: wf_packed_def example_question_pack_def)
  have b: "hd (batch_sizes example_question_pack) = length [[1, 2, 3], [4, 5::nat]]"
    by (simp add: example_question_pack_def)
  have sq: "sorted_idx example_question = [0, 1]" by code_simp
  have sp: "sorted_idx example_passage = [1, 0]" by code_simp
  have Qv: "question_pad_in_passage_sorted_order example_question example_passage example_question_pack
     = Inr example_question_pad"
    by code_simp
  have Mv: "mask_in_sorted_order example_passage (mask_original example_question)
     = Inr example_question_mask"
    by code_simp
  have c0: "select_index 1 0 example_question_pad
     = Tensor [Tensor [Scalar 4], Tensor [Scalar 5], Tensor [Scalar 0]]"
    by (simp add: example_question_pad_def)
  have m0: "select_index 1 0 example_question_mask = Tensor [Scalar 1, Scalar 1, Scalar 0]"
    by (simp add: example_question_mask_def)
  have pe: "fst (pair_encoder example_net_keyed
             (example_passage_pack, example_question_pad, example_question_mask))
     = \<lparr> data = [Tensor [Scalar 39], Tensor [Scalar 16], Tensor [Scalar 49], Tensor [Scalar 26],
                  Tensor [Scalar 59], Tensor [Scalar 69]],
         batch_sizes = [2, 2, 1, 1] \<rparr>"
    by code_simp
  have fv: "RNet_forward example_net_keyed example_question example_passage
         (example_embed (tensor example_question)) (example_embed (tensor example_passage))
     = Inr (Tensor [Tensor [Scalar 47, Scalar 67, Scalar 0, Scalar 0],
                    Tensor [Scalar 93, Scalar 113, Scalar 133, Scalar 153]],
            Tensor [Tensor [Scalar 548, Scalar 568, Scalar 0, Scalar 0],
                    Tensor [Scalar 594, Scalar 614, Scalar 634, Scalar 654]])"
    by code_simp
  obtain Q M where
    Q: "question_pad_in_passage_sorted_order example_question example_passage example_question_pack = Inr Q"
    and M: "mask_in_sorted_order example_passage (mask_original example_question) = Inr M"
    and s: "\<forall>j<length [[10, 20], [30, 40, 50, 60::nat]].
          select_index 1 j Q
            = select_index 1 (original_idx example_question ! (sorted_idx example_passage ! j))
                (padded example_question_pack)
        \<and> sorted_idx example_question ! (original_idx example_question ! (sorted_idx example_passage ! j))
            = sorted_idx example_passage ! j
        \<and> select_index 1 j M
            = select_index 0 (sorted_idx example_passage ! j) (mask_original example_question)"
    using question_states_and_mask_in_passage_order[OF q p n example_keyed_sentence_encoding w b]
    by blast
  have "0 < length [[10, 20], [30, 40, 50, 60::nat]]" by simp
  with s have s0: "select_index 1 0 Q
            = select_index 1 (original_idx example_question ! (sorted_idx example_passage ! 0))
                (padded example_question_pack)"
    and t0: "select_index 1 0 M
            = select_index 0 (sorted_idx example_passage ! 0) (mask_original example_question)"
    by blast+
  from Q Qv have Qe: "Q = example_question_pad" by simp
  from M Mv have Me: "M = example_question_mask" by simp
  show ?thesis
    using example_keyed_sentence_encoding w sq sp Qv Mv s0[unfolded Qe] c0 t0[unfolded Me] m0 pe fv
    by blast
qed
text \<open>
  C6 (amended). For every encoder the constructor builds with at least one filter and at
  least one filter width, and every input of shape (batch, word_count, char_count)
  whose character count is at least every configured filter width (with indices in the
  embedding table, whose rows have the embedding size), the forward pass without a mask
  returns a tensor of shape (batch, word_count, output_dim), where output_dim is the
  configured value when one is given (and is not 0) and the number of filter widths
  times the number of filters otherwise. With exactly one filter width the output of the
  single convolution layer is used directly, without concatenation.
\<close>

theorem char_cnn_output_shape:
  fixes self :: "('a::{zero,linorder}) CharLevelWordEmbeddingCnn"
  assumes "CharLevelWordEmbeddingCnn_init initial_table initial_filters initial_units
             char_embedding_size char_num num_filters ngram_filter_sizes output_dim_arg
             activation_arg embedding_weights padding_idx requires_grad = Inr self"
    and "cube b w c t" and "0 < b" and "0 < w"
    and "list_all (list_all (list_all (\<lambda>i. i < length (weight (embed_char self))))) t"
    and "list_all (\<lambda>row. length row = embedding_size self) (weight (embed_char self))"
    and "0 < embedding_size self"
    and "ngram_filter_sizes \<noteq> []"
    and "list_all (\<lambda>k. 0 < k \<and> k \<le> c) ngram_filter_sizes"
    and "0 < num_filters"
  shows "(\<exists>out. CharLevelWordEmbeddingCnn_forward self t None = Inr out
              \<and> cube b w (output_dim self) out)
       \<and> output_dim self
           = (case output_dim_arg of
                None \<Rightarrow> length ngram_filter_sizes * num_filters
              | Some d \<Rightarrow> if d \<noteq> 0 then d else length ngram_filter_sizes * num_filters)
       \<and> (length ngram_filter_sizes = 1 \<longrightarrow>
            CharLevelWordEmbeddingCnn_forward self t None
            = and_then (embedded_characters self t None) (\<lambda>((batch_num, word_num, char_num), x).
              and_then (cnn_layer_forward (activation self) (hd (cnn_layers self)) x) (\<lambda>single.
              and_then (case output_layer self of
                          Some lin \<Rightarrow> sequence (map (Linear_forward lin) single)
                        | None \<Rightarrow> Inr single) (view3 batch_num word_num))))"
proof -
  note f = init_fields[OF assms(1)]
  have 1: "\<exists>out. CharLevelWordEmbeddingCnn_forward self t None = Inr out
              \<and> cube b w (output_dim self) out"
    by (rule forward_shape_unmasked[OF assms])
  have 3: "CharLevelWordEmbeddingCnn_forward self t None
            = and_then (embedded_characters self t None) (\<lambda>((batch_num, word_num, char_num), x).
              and_then (cnn_layer_forward (activation self) (hd (cnn_layers self)) x) (\<lambda>single.
              and_then (case output_layer self of
                          Some lin \<Rightarrow> sequence (map (Linear_forward lin) single)
                        | None \<Rightarrow> Inr single) (view3 batch_num word_num)))"
    if "length ngram_filter_sizes = 1"
  proof -
    from that f(1) obtain layer where l: "cnn_layers self = [layer]"
      by (cases "cnn_layers self") auto
    show ?thesis
      unfolding CharLevelWordEmbeddingCnn_forward_def l
      by (auto simp: and_then_def split: sum.splits prod.splits option.splits)
  qed
  show ?thesis using 1 f(4) 3 by blast
qed

theorem char_cnn_output_shape_witness:
  "CharLevelWordEmbeddingCnn_init example_initial_table example_initial_filters
     example_initial_units 7 100 2 [2, 3] (Some 3) relu (Some [[1, 2], [3, 4], [5, 6]])
     (Some 1) False
     = Inr example_char_cnn_projected
   \<and> cube 2 2 3 [[[0, 1, 2], [2, 2, 1]], [[1, 0, 0], [0, 1, 2::nat]]]
   \<and> CharLevelWordEmbeddingCnn_forward example_char_cnn_projected
         [[[0, 1, 2], [2, 2, 1]], [[1, 0, 0], [0, 1, 2]]] None
     = Inr [[[117, 118, 119], [153, 154, 155]], [[69, 70, 71], [117, 118, 119]]]
   \<and> cube 2 2 (output_dim example_char_cnn_projected)
         [[[117, 118, 119], [153, 154, 155]], [[69, 70, 71], [117, 118, 119::int]]]
   \<and> output_dim example_char_cnn_projected = 3"
proof -
  let ?t = "[[[0, 1, 2], [2, 2, 1]], [[1, 0, 0], [0, 1, 2::nat]]]"
  have c: "cube 2 2 3 ?t" by (simp add: cube_def)
  have i: "list_all (list_all (list_all
             (\<lambda>i. i < length (weight (embed_char example_char_cnn_projected))))) ?t"
    by (simp add: example_char_cnn_projected_def)
  have r: "list_all (\<lambda>row. length row = embedding_size example_char_cnn_projected)
             (weight (embed_char example_char_cnn_projected))"
    by (simp add: example_char_cnn_projected_def)
  have E: "0 < embedding_size example_char_cnn_projected"
    by (simp add: example_char_cnn_projected_def)
  have k: "list_all (\<lambda>k. 0 < k \<and> k \<le> 3) [2, 3::nat]" by simp
  have v: "CharLevelWordEmbeddingCnn_forward example_char_cnn_projected ?t None
     = Inr [[[117, 118, 119], [153, 154, 155]], [[69, 70, 71], [117, 118, 119]]]"
    by code_simp
  note t = char_cnn_output_shape[OF example_char_cnn_projected_init c _ _ i r E _ k]
  have "cube 2 2 (output_dim example_char_cnn_projected)
         [[[117, 118, 119], [153, 154, 155]], [[69, 70, 71], [117, 118, 119::int]]]"
    using t v by auto
  moreover have "output_dim example_char_cnn_projected = 3"
    using t by auto
  ultimately show ?thesis
    using example_char_cnn_projected_init c v by blast
qed

text \<open>
  C6 as stated fails for short words: the encoder with the default filter width 5
  raises on an input of shape (1, 1, 3), whose words have 3 characters, and returns a
  tensor of shape (1, 1, 2) on an input of shape (1, 1, 6).
\<close>

theorem short_words_counterexample:
  "CharLevelWordEmbeddingCnn_init example_initial_table example_initial_filters
     example_initial_units 1 3 2 [5] None relu None (Some 1) True = Inr example_char_cnn_default
   \<and> cube 1 1 3 [[[2, 0, 1::nat]]]
   \<and> CharLevelWordEmbeddingCnn_forward example_char_cnn_default [[[2, 0, 1]]] None
     = Inl (RuntimeError ''Kernel size can't be greater than actual input size'')
   \<and> CharLevelWordEmbeddingCnn_forward example_char_cnn_default [[[2, 0, 1, 1, 2, 0]]] None
     = Inr [[[43, 86]]]"
proof -
  have c: "cube 1 1 3 [[[2, 0, 1::nat]]]" by (simp add: cube_def)
  have s: "CharLevelWordEmbeddingCnn_forward example_char_cnn_default [[[2, 0, 1]]] None
     = Inl (RuntimeError ''Kernel size can't be greater than actual input size'')"
    by code_simp
  have l: "CharLevelWordEmbeddingCnn_forward example_char_cnn_default [[[2, 0, 1, 1, 2, 0]]] None
     = Inr [[[43, 86]]]"
    by code_simp
  show ?thesis using example_char_cnn_default_init c s l by blast
qed

text \<open>
  C7. The forward pass of \<open>CharLevelWordEmbeddingCnn\<close> with a mask never returns: the
  product of the character indices with \<^verbatim>\<open>mask.float()\<close> (line 148) is a tensor of
  floating-point numbers, which the embedding lookup of line 151 refuses, so every call
  with a mask raises, whatever the encoder, the input and the mask; no masked position
  reaches the convolution, as a zero vector or otherwise. Without a mask the indices are
  looked up as they are: an absent mask is no masking, not an error.
\<close>

theorem masked_forward_raises:
  fixes self :: "('a::linorder) CharLevelWordEmbeddingCnn"
  shows "(\<exists>e. embedded_characters self t (Some m) = Inl e)
       \<and> (\<exists>e. CharLevelWordEmbeddingCnn_forward self t (Some m) = Inl e)
       \<and> embedded_characters self t None
           = and_then (size3 t) (\<lambda>(batch_num, word_num, char_num).
             and_then (sequence (map (\<lambda>row. sequence (map (Embedding_lookup (embed_char self)) row))
                                     (concat t)))
               (\<lambda>embedded. Inr ((batch_num, word_num, char_num), map transpose embedded)))"
proof -
  have 1: "\<exists>e. embedded_characters self t (Some m) = Inl e"
  proof (cases "mask_indices t m")
    case (Inl e)
    then show ?thesis by (simp add: embedded_characters_def and_then_def)
  next
    case (Inr tensor)
    then obtain product where p: "tensor = FloatTensor product"
      by (auto simp: mask_indices_def and_then_def split: sum.splits)
    show ?thesis
      by (cases "tensor_size3 product")
         (auto simp: embedded_characters_def and_then_def Inr p)
  qed
  then have 2: "\<exists>e. CharLevelWordEmbeddingCnn_forward self t (Some m) = Inl e"
    by (auto simp: CharLevelWordEmbeddingCnn_forward_def and_then_def)
  have 3: "embedded_characters self t None
           = and_then (size3 t) (\<lambda>(batch_num, word_num, char_num).
             and_then (sequence (map (\<lambda>row. sequence (map (Embedding_lookup (embed_char self)) row))
                                     (concat t)))
               (\<lambda>embedded. Inr ((batch_num, word_num, char_num), map transpose embedded)))"
    by (simp add: embedded_characters_def and_then_def)
  show ?thesis using 1 2 3 by blast
qed

text \<open>
  The encoder built with the default padding index 1, three characters, an embedding of
  size 1 and two filters of width 2, on the one word \<open>[2, 1]\<close> with a mask that excludes
  its first character: the call with the mask raises, and the call without it returns.
\<close>

theorem masked_forward_raises_witness:
  "CharLevelWordEmbeddingCnn_init example_initial_table example_initial_filters
     example_initial_units 1 3 2 [2] None relu None (Some 1) True = Inr example_char_cnn
   \<and> mask_indices [[[2, 1]]] [[[False, True]]]
     = Inr (FloatTensor (Tensor [Tensor [Tensor [Scalar 0, Scalar 1]]]))
   \<and> CharLevelWordEmbeddingCnn_forward example_char_cnn [[[2, 1]]] (Some [[[False, True]]])
     = Inl (RuntimeError ''Expected tensor for argument #1 'indices' to have scalar type Long'')
   \<and> CharLevelWordEmbeddingCnn_forward example_char_cnn [[[2, 1]]] None = Inr [[[21, 42]]]"
proof -
  obtain e where
    e: "CharLevelWordEmbeddingCnn_forward example_char_cnn [[[2, 1]]] (Some [[[False, True]]]) = Inl e"
    using masked_forward_raises[of example_char_cnn "[[[2, 1]]]" "[[[False, True]]]"] by blast
  have p: "mask_indices [[[2, 1]]] [[[False, True]]]
     = Inr (FloatTensor (Tensor [Tensor [Tensor [Scalar 0, Scalar 1]]]))"
    by code_simp
  have v: "CharLevelWordEmbeddingCnn_forward example_char_cnn [[[2, 1]]] (Some [[[False, True]]])
     = Inl (RuntimeError ''Expected tensor for argument #1 'indices' to have scalar type Long'')"
    by code_simp
  have u: "CharLevelWordEmbeddingCnn_forward example_char_cnn [[[2, 1]]] None = Inr [[[21, 42]]]"
    by code_simp
  from e v have "e = RuntimeError ''Expected tensor for argument #1 'indices' to have scalar type Long''"
    by simp
  with e show ?thesis using example_char_cnn_init p u by simp
qed
text \<open>
  C8. A \<open>WordEmbedding\<close> built from pretrained vectors holds one table, the pretrained
  vectors themselves, registered with the configured padding index and with
  \<open>requires_grad\<close> as configured. Its forward pass returns one embedded tensor per input
  tensor, each the lookup of that input in this one table: every index is replaced by
  its row of the pretrained vectors. The padding index is a row of the table and always
  maps to that same fixed row. (That the library leaves the row of the registered padding
  index out of the gradient, and trains the table only when \<open>requires_grad\<close> is set, is
  the library's contract for these two attributes.)
\<close>

theorem WordEmbedding_shared_table:
  fixes m :: "('a::zero) WordEmbedding"
  assumes "WordEmbedding_init initial_table word_embedding padding_idx requires_grad = Inr m"
  shows "weight (word_embedding_word_level m) = word_embedding
       \<and> embedding_padding_idx (word_embedding_word_level m) = padding_idx
       \<and> weight_requires_grad (word_embedding_word_level m) = requires_grad
       \<and> (\<forall>i. Embedding_forward (word_embedding_word_level m) (Scalar i)
               = (if i < length word_embedding
                  then Inr (Tensor (map Scalar (word_embedding ! i)))
                  else Inl (IndexError ''index out of range in self'')))
       \<and> (\<forall>results. WordEmbedding_forward m tensors = Inr results
             \<longrightarrow> length results = length tensors
               \<and> (\<forall>k<length tensors.
                     Embedding_forward (word_embedding_word_level m) (tensors ! k)
                       = Inr (results ! k)))
       \<and> (\<forall>p. padding_idx = Some p
             \<longrightarrow> p < length word_embedding
               \<and> Embedding_forward (word_embedding_word_level m) (Scalar p)
                   = Inr (Tensor (map Scalar (word_embedding ! p))))"
proof -
  obtain e where e: "Embedding_init initial_table (fst (table_size word_embedding))
                       (snd (table_size word_embedding)) padding_idx = Inr e"
    using assms
    by (cases "Embedding_init initial_table (fst (table_size word_embedding))
                 (snd (table_size word_embedding)) padding_idx")
       (simp_all add: WordEmbedding_init_def and_then_def split_def)
  have m: "word_embedding_word_level m
      = e\<lparr> weight := word_embedding, weight_requires_grad := requires_grad \<rparr>"
    using assms e by (auto simp: WordEmbedding_init_def and_then_def split_def)
  have pad: "embedding_padding_idx e = padding_idx"
    and inrange: "\<And>p. padding_idx = Some p \<Longrightarrow> p < length word_embedding"
    using e by (auto simp: Embedding_init_def table_size_def split: option.splits if_splits)
  have look: "Embedding_forward (word_embedding_word_level m) (Scalar i)
               = (if i < length word_embedding
                  then Inr (Tensor (map Scalar (word_embedding ! i)))
                  else Inl (IndexError ''index out of range in self''))" for i
    by (simp add: m Embedding_lookup_def and_then_def)
  have fw: "length results = length tensors
               \<and> (\<forall>k<length tensors.
                     Embedding_forward (word_embedding_word_level m) (tensors ! k)
                       = Inr (results ! k))"
    if "WordEmbedding_forward m tensors = Inr results" for results
    using that sequence_length[of "map (Embedding_forward (word_embedding_word_level m)) tensors" results]
      sequence_nth[of "map (Embedding_forward (word_embedding_word_level m)) tensors" results]
    by (auto simp: WordEmbedding_forward_def)
  show ?thesis using m pad inrange look fw by simp
qed

theorem WordEmbedding_shared_table_witness:
  "\<exists>m. WordEmbedding_init example_initial_table [[1, 2], [0, 0], [5, 6]] (Some 1) False = Inr m
      \<and> weight (word_embedding_word_level m) = [[1, 2], [0, 0], [5, 6]]
      \<and> embedding_padding_idx (word_embedding_word_level m) = Some 1
      \<and> weight_requires_grad (word_embedding_word_level m) = False
      \<and> WordEmbedding_forward m [Tensor [Scalar 2, Scalar 1], Tensor [Scalar 0]]
        = Inr [Tensor [Tensor [Scalar 5, Scalar 6], Tensor [Scalar 0, Scalar 0]],
               Tensor [Tensor [Scalar 1, Scalar 2]]]"
proof -
  obtain m where m: "WordEmbedding_init example_initial_table [[1, 2], [0, 0], [5, 6]] (Some 1) False
      = Inr (m :: int WordEmbedding)"
    by (simp add: WordEmbedding_init_def Embedding_init_def table_size_def and_then_def)
  note t = WordEmbedding_shared_table[OF m]
  have l: "\<And>i. Embedding_forward (word_embedding_word_level m) (Scalar i)
               = (if i < length [[1, 2], [0, 0], [5, 6::int]]
                  then Inr (Tensor (map Scalar ([[1, 2], [0, 0], [5, 6]] ! i)))
                  else Inl (IndexError ''index out of range in self''))"
    using t by blast
  have "WordEmbedding_forward m [Tensor [Scalar 2, Scalar 1], Tensor [Scalar 0]]
        = Inr [Tensor [Tensor [Scalar 5, Scalar 6], Tensor [Scalar 0, Scalar 0]],
               Tensor [Tensor [Scalar 1, Scalar 2]]]"
    by (simp add: WordEmbedding_forward_def l and_then_def del: Embedding_forward.simps(1))
  then show ?thesis using m t by blast
qed

text \<open>
  C9 (amended). When the residual toggle is on, the residual added after pair encoding is
  the pair encoder's input, the sentence-encoded passage pack, and the residual added after
  self matching is the paired pack with that first residual already added, which is
  exactly the pack the self-matching encoder was applied to: each stage adds its own
  encoder's input to its output through \<open>pack_residual\<close>, and the two stages differ only in
  the order of the two operands.
\<close>

theorem residual_operands:
  fixes self :: "('a::{zero,plus}) RNet"
  assumes "residual self"
  shows "RNet_passage_representation self passage passage_pack question_pad question_mask
       = and_then (pack_residual (fst (pair_encoder self (passage_pack, question_pad, question_mask)))
                     passage_pack) (\<lambda>paired_passage_pack.
         and_then (mask_in_sorted_order passage (mask_original passage)) (\<lambda>passage_mask.
         and_then (pad_packed_sequence paired_passage_pack) (\<lambda>(paired_passage_pad, _).
           pack_residual paired_passage_pack
             (fst (self_matching_encoder self
                     (paired_passage_pack, paired_passage_pad, passage_mask))))))"
proof -
  have pe: "RNet_pair_encode self passage_pack question_pad question_mask
      = fst (pair_encoder self (passage_pack, question_pad, question_mask))"
    by (simp add: RNet_pair_encode_def PairEncoder_forward_def split_def)
  have sm: "and_then (RNet_self_match_encode self x passage) (pack_residual x)
      = and_then (mask_in_sorted_order passage (mask_original passage)) (\<lambda>passage_mask.
        and_then (pad_packed_sequence x) (\<lambda>(x_pad, _).
          pack_residual x (fst (self_matching_encoder self (x, x_pad, passage_mask)))))" for x
    by (auto simp: RNet_self_match_encode_def SelfMatchingEncoder_forward_def and_then_def
        split_def split: sum.splits)
  show ?thesis
    unfolding RNet_passage_representation_def Let_def pe using assms sm
    by (simp add: and_then_def cong: sum.case_cong)
qed

theorem residual_operands_witness:
  "residual (example_net True)
   \<and> RNet_passage_representation (example_net True) example_passage example_passage_pack
       example_question_pad example_question_mask
     = Inr \<lparr> data = [Tensor [Scalar 270], Tensor [Scalar 90], Tensor [Scalar 360],
                       Tensor [Scalar 180], Tensor [Scalar 450], Tensor [Scalar 540]],
              batch_sizes = [2, 2, 1, 1] \<rparr>"
proof -
  have r: "residual (example_net True)" by (simp add: example_net_def)
  have "and_then (pack_residual (fst (pair_encoder (example_net True)
                     (example_passage_pack, example_question_pad, example_question_mask)))
                     example_passage_pack) (\<lambda>paired_passage_pack.
         and_then (mask_in_sorted_order example_passage (mask_original example_passage)) (\<lambda>passage_mask.
         and_then (pad_packed_sequence paired_passage_pack) (\<lambda>(paired_passage_pad, _).
           pack_residual paired_passage_pack
             (fst (self_matching_encoder (example_net True)
                     (paired_passage_pack, paired_passage_pad, passage_mask))))))
     = Inr \<lparr> data = [Tensor [Scalar 270], Tensor [Scalar 90], Tensor [Scalar 360],
                       Tensor [Scalar 180], Tensor [Scalar 450], Tensor [Scalar 540]],
              batch_sizes = [2, 2, 1, 1] \<rparr>"
    by code_simp
  then show ?thesis
    using r residual_operands[OF r, of example_passage example_passage_pack
        example_question_pad example_question_mask]
    by simp
qed

text \<open>
  C9 as stated fails: on the instance the pair encoder doubles the passage pack \<open>p\<close>, so
  the self-matching encoder receives \<open>2p + p\<close> and returns \<open>6p\<close>, and the program returns
  \<open>3p + 6p\<close>, where adding the pair encoder's output instead of the self-matching encoder's
  input would give \<open>2p + 6p\<close>.
\<close>

theorem residual_asymmetry_counterexample:
  "RNet_passage_representation (example_net True) example_passage example_passage_pack
       example_question_pad example_question_mask
     = Inr \<lparr> data = [Tensor [Scalar 270], Tensor [Scalar 90], Tensor [Scalar 360],
                       Tensor [Scalar 180], Tensor [Scalar 450], Tensor [Scalar 540]],
              batch_sizes = [2, 2, 1, 1] \<rparr>
   \<and> passage_representation_as_claimed (example_net True) example_passage example_passage_pack
       example_question_pad example_question_mask
     = Inr \<lparr> data = [Tensor [Scalar 240], Tensor [Scalar 80], Tensor [Scalar 320],
                       Tensor [Scalar 160], Tensor [Scalar 400], Tensor [Scalar 480]],
              batch_sizes = [2, 2, 1, 1] \<rparr>
   \<and> RNet_passage_representation (example_net True) example_passage example_passage_pack
       example_question_pad example_question_mask
     \<noteq> passage_representation_as_claimed (example_net True) example_passage example_passage_pack
       example_question_pad example_question_mask"
proof -
  have a: "RNet_passage_representation (example_net True) example_passage example_passage_pack
       example_question_pad example_question_mask
     = Inr \<lparr> data = [Tensor [Scalar 270], Tensor [Scalar 90], Tensor [Scalar 360],
                       Tensor [Scalar 180], Tensor [Scalar 450], Tensor [Scalar 540]],
              batch_sizes = [2, 2, 1, 1] \<rparr>"
    by code_simp
  have b: "passage_representation_as_claimed (example_net True) example_passage example_passage_pack
       example_question_pad example_question_mask
     = Inr \<lparr> data = [Tensor [Scalar 240], Tensor [Scalar 80], Tensor [Scalar 320],
                       Tensor [Scalar 160], Tensor [Scalar 400], Tensor [Scalar 480]],
              batch_sizes = [2, 2, 1, 1] \<rparr>"
    by code_simp
  show ?thesis unfolding a b by simp
qed

text \<open>
  C10. When \<open>embedding_weights\<close> is given to the constructor of
  \<open>CharLevelWordEmbeddingCnn\<close>, the arguments \<open>char_num\<close> and \<open>char_embedding_size\<close> have
  no effect: the constructed module is the same for any two values of them. The size of
  the embedding, the recorded embedding size and the input channels of every convolution
  are the numbers of rows and of columns of the given weights, the table is the given
  weights, and its \<open>requires_grad\<close> is the argument of that name.
\<close>

theorem embedding_weights_fix_dimensions:
  fixes m :: "('a::zero) CharLevelWordEmbeddingCnn"
  assumes "CharLevelWordEmbeddingCnn_init initial_table initial_filters initial_units
             char_embedding_size char_num num_filters ngram_filter_sizes output_dim_arg
             activation_arg (Some w) padding_idx requires_grad = Inr m"
  shows "CharLevelWordEmbeddingCnn_init initial_table initial_filters initial_units
             char_embedding_size' char_num' num_filters ngram_filter_sizes output_dim_arg
             activation_arg (Some w) padding_idx requires_grad = Inr m
       \<and> weight (embed_char m) = w
       \<and> num_embeddings (embed_char m) = fst (table_size w)
       \<and> embedding_dim (embed_char m) = snd (table_size w)
       \<and> weight_requires_grad (embed_char m) = requires_grad
       \<and> embedding_size m = snd (table_size w)
       \<and> list_all (\<lambda>layer. in_channels layer = snd (table_size w)) (cnn_layers m)"
proof -
  have same: "CharLevelWordEmbeddingCnn_init initial_table initial_filters initial_units
             char_embedding_size' char_num' num_filters ngram_filter_sizes output_dim_arg
             activation_arg (Some w) padding_idx requires_grad
      = CharLevelWordEmbeddingCnn_init initial_table initial_filters initial_units
             char_embedding_size char_num num_filters ngram_filter_sizes output_dim_arg
             activation_arg (Some w) padding_idx requires_grad"
    by (simp add: CharLevelWordEmbeddingCnn_init_def)
  obtain e where e: "Embedding_init initial_table (fst (table_size w)) (snd (table_size w)) padding_idx
      = Inr e"
    using assms
    by (cases "Embedding_init initial_table (fst (table_size w)) (snd (table_size w)) padding_idx")
       (simp_all add: CharLevelWordEmbeddingCnn_init_def and_then_def split_def)
  have dims: "num_embeddings e = fst (table_size w)" "embedding_dim e = snd (table_size w)"
    using e by (auto simp: Embedding_init_def split: option.splits if_splits)
  have m: "m = \<lparr> embed_char = e\<lparr> weight := w, weight_requires_grad := requires_grad \<rparr>,
               embedding_size = snd (table_size w),
               cnn_layers = map (\<lambda>(i, filter_size).
                                  \<lparr> in_channels = snd (table_size w), out_channels = num_filters,
                                    kernel_size = filter_size, conv_filter = initial_filters i \<rparr>)
                               (enumerate 0 ngram_filter_sizes),
               activation = activation_arg,
               output_layer =
                 (if (case output_dim_arg of None \<Rightarrow> 0 | Some d \<Rightarrow> d) \<noteq> 0
                  then Some \<lparr> in_features = length ngram_filter_sizes * num_filters,
                              out_features = (case output_dim_arg of None \<Rightarrow> 0 | Some d \<Rightarrow> d),
                              out_unit = initial_units \<rparr>
                  else None),
               output_dim = (if (case output_dim_arg of None \<Rightarrow> 0 | Some d \<Rightarrow> d) \<noteq> 0
                             then (case output_dim_arg of None \<Rightarrow> 0 | Some d \<Rightarrow> d)
                             else length ngram_filter_sizes * num_filters) \<rparr>"
    using assms e
    by (simp add: CharLevelWordEmbeddingCnn_init_def and_then_def split_def Let_def)
  show ?thesis
    unfolding same using assms dims by (simp add: m list_all_iff split_def)
qed

theorem embedding_weights_fix_dimensions_witness:
  "\<exists>m. CharLevelWordEmbeddingCnn_init example_initial_table example_initial_filters
          example_initial_units 7 100 4 [2, 3] None relu (Some [[1, 2], [3, 4], [5, 6]]) (Some 1) False
        = Inr m
      \<and> CharLevelWordEmbeddingCnn_init example_initial_table example_initial_filters
          example_initial_units 9 50 4 [2, 3] None relu (Some [[1, 2], [3, 4], [5, 6]]) (Some 1) False
        = Inr m
      \<and> weight (embed_char m) = [[1, 2], [3, 4], [5, 6]]
      \<and> num_embeddings (embed_char m) = 3 \<and> embedding_dim (embed_char m) = 2
      \<and> weight_requires_grad (embed_char m) = False
      \<and> embedding_size m = 2"
proof -
  obtain m where m: "CharLevelWordEmbeddingCnn_init example_initial_table example_initial_filters
          example_initial_units 7 100 4 [2, 3] None relu (Some [[1, 2], [3, 4], [5, 6]]) (Some 1) False
        = Inr m"
    by (simp add: CharLevelWordEmbeddingCnn_init_def Embedding_init_def table_size_def
        and_then_def)
  from embedding_weights_fix_dimensions[OF m, of 9 50] m show ?thesis
    by (auto simp: table_size_def)
qed

end
